theory Spec2Isabelle
  imports Complex_Main "HOL-Library.AList"
begin

section \<open>Python values and exceptions\<close>

text \<open>
  The values that \<open>json.load\<close> produces. A Python \<open>dict\<close> keeps its insertion order, so
  an object is an association list; a key is looked up with \<open>map_of\<close>.
\<close>

datatype json =
    JNull
  | JBool bool
  | JInt int
  | JFloat real
  | JStr string
  | JList "json list"
  | JDict "(string \<times> json) list"

text \<open>
  The exception classes that the program raises or handles, and the part of Python's
  class hierarchy between them that an \<open>except\<close> clause observes.
\<close>

datatype exc_class =
    OSError
  | FileNotFoundError
  | JSONDecodeError
  | UnicodeDecodeError
  | ValueError
  | KeyError
  | IndexError
  | TypeError
  | AttributeError
  | TypeCheckError
  | ArgumentError

text \<open>What \<open>str(e)\<close> shows of an exception.\<close>

datatype detail =
    Text string
  | MissingKey string
  | InvalidSlideType json
  | UnexpectedKeyword string
  | HasNoDocstring string

datatype exn = Exn exc_class detail

fun exc_class_of :: "exn \<Rightarrow> exc_class" where
  "exc_class_of (Exn c d) = c"

fun str_exn :: "exn \<Rightarrow> detail" where
  "str_exn (Exn c d) = d"

fun issubclass :: "exc_class \<Rightarrow> exc_class \<Rightarrow> bool" where
  "issubclass FileNotFoundError OSError = True"
| "issubclass JSONDecodeError ValueError = True"
| "issubclass UnicodeDecodeError ValueError = True"
| "issubclass c c' = (c = c')"

definition isinstance :: "exn \<Rightarrow> exc_class \<Rightarrow> bool" where
  "isinstance e c = issubclass (exc_class_of e) c"

text \<open>\<open>v[k]\<close> with a string key: only a dict can be subscripted with a string.\<close>

fun py_getitem :: "json \<Rightarrow> string \<Rightarrow> exn + json" where
  "py_getitem (JDict kv) k =
     (case map_of kv k of
        Some v \<Rightarrow> Inr v
      | None \<Rightarrow> Inl (Exn KeyError (MissingKey k)))"
| "py_getitem (JList xs) k = Inl (Exn TypeError (Text ''list indices must be integers or slices, not str''))"
| "py_getitem (JStr s) k = Inl (Exn TypeError (Text ''string indices must be integers, not str''))"
| "py_getitem v k = Inl (Exn TypeError (Text ''object is not subscriptable''))"

text \<open>What a \<open>for\<close> statement iterates over.\<close>

fun py_iter :: "json \<Rightarrow> exn + json list" where
  "py_iter (JList xs) = Inr xs"
| "py_iter (JStr s) = Inr (map (\<lambda>c. JStr [c]) s)"
| "py_iter (JDict kv) = Inr (map (\<lambda>(k, v). JStr k) kv)"
| "py_iter v = Inl (Exn TypeError (Text ''object is not iterable''))"

text \<open>
  \<open>d.pop(k)\<close> with a string key: on a dict, the value and the dict without the key; a
  list has a \<open>pop\<close> that wants an integer; nothing else has the method.
\<close>

fun py_pop :: "json \<Rightarrow> string \<Rightarrow> exn + (json \<times> json)" where
  "py_pop (JDict kv) k =
     (case map_of kv k of
        Some v \<Rightarrow> Inr (v, JDict (filter (\<lambda>(k', v'). k' \<noteq> k) kv))
      | None \<Rightarrow> Inl (Exn KeyError (MissingKey k)))"
| "py_pop (JList xs) k = Inl (Exn TypeError (Text ''str object cannot be interpreted as an integer''))"
| "py_pop v k = Inl (Exn AttributeError (Text ''object has no attribute pop''))"

text \<open>
  Calling \<open>f(presentation, **d)\<close> for a function whose other parameters are \<open>params\<close>: a
  key of \<open>d\<close> that names none of them is a \<open>TypeError\<close> of the call itself.
\<close>

definition bind_kwargs :: "string list \<Rightarrow> (string \<times> json) list \<Rightarrow> exn option" where
  "bind_kwargs params kw =
     (case filter (\<lambda>(k, v). k \<notin> set params) kw of
        [] \<Rightarrow> None
      | (k, v) # rest \<Rightarrow> Some (Exn TypeError (UnexpectedKeyword k)))"

definition kwarg :: "(string \<times> json) list \<Rightarrow> string \<Rightarrow> json \<Rightarrow> json" where
  "kwarg kw name dflt = (case map_of kw name of Some v \<Rightarrow> v | None \<Rightarrow> dflt)"

section \<open>The libraries the program calls\<close>

text \<open>The annotations that the program hands to typeguard.\<close>

datatype pytype =
    TStr
  | TInt
  | TDict
  | TList pytype
  | TTypedDict "(string \<times> pytype) list"

definition Config :: pytype where
  "Config = TTypedDict [(''presentation'', TList TDict)]"

definition ListElements :: pytype where
  "ListElements = TTypedDict [(''level'', TInt), (''text'', TStr)]"

text \<open>
  A numpy array as \<open>loadtxt\<close> returns it: one-dimensional, or two-dimensional and then
  given by its columns.
\<close>

datatype ndarray = Array1 "real list" | Array2 "real list list"

text \<open>\<open>data[:,k]\<close>: the \<open>k\<close>-th column of a two-dimensional array.\<close>

fun column :: "ndarray \<Rightarrow> nat \<Rightarrow> exn + real list" where
  "column (Array1 xs) k = Inl (Exn IndexError (Text ''too many indices for array''))"
| "column (Array2 cols) k =
     (if k < length cols then Inr (cols ! k)
      else Inl (Exn IndexError (Text ''index is out of bounds for axis 1'')))"

text \<open>
  The module-global state of \<open>matplotlib.pyplot\<close>: the current figure, with the lines
  plotted on it so far and its axis labels. \<open>plt.plot\<close> adds a line to the current
  figure, \<open>plt.xlabel\<close> and \<open>plt.ylabel\<close> replace a label, \<open>plt.savefig\<close> renders the
  current figure as it is; none of them starts a new figure.
\<close>

record pyplot =
  lines :: "(real list \<times> real list) list"
  xlabel :: "json option"
  ylabel :: "json option"

definition plt_plot :: "real list \<Rightarrow> real list \<Rightarrow> pyplot \<Rightarrow> pyplot" where
  "plt_plot xs ys p = p\<lparr>lines := lines p @ [(xs, ys)]\<rparr>"

definition plt_xlabel :: "json \<Rightarrow> pyplot \<Rightarrow> pyplot" where
  "plt_xlabel l p = p\<lparr>xlabel := Some l\<rparr>"

definition plt_ylabel :: "json \<Rightarrow> pyplot \<Rightarrow> pyplot" where
  "plt_ylabel l p = p\<lparr>ylabel := Some l\<rparr>"

text \<open>The image that \<open>plt.savefig\<close> writes into the stream: the figure at that moment.\<close>

definition plt_savefig :: "pyplot \<Rightarrow> pyplot" where
  "plt_savefig p = p"

text \<open>
  A slide of the document, as far as the program writes to it: the layout it was added
  with, the text of its title shape and of its placeholder 1, the paragraphs added to the
  text frame of placeholder 1 (text and level), and the shapes added to it. Lengths are in
  inches.
\<close>

datatype shape =
    TextBox nat nat nat nat json
  | PictureFile json nat nat nat
  | PictureStream pyplot nat nat nat

record slide =
  layout :: nat
  title_text :: "json option"
  placeholder1_text :: "json option"
  paragraphs :: "(json \<times> json) list"
  shapes :: "shape list"

definition add_slide :: "nat \<Rightarrow> slide" where
  "add_slide l =
     \<lparr>layout = l, title_text = None, placeholder1_text = None, paragraphs = [], shapes = []\<rparr>"

text \<open>
  What the libraries answer. Each field is the outcome of one library call whose result
  the program depends on:
  \<^item> \<open>read_json path\<close>: \<open>open(path, 'r')\<close> followed by \<open>json.load\<close>;
  \<^item> \<open>check_type v t\<close>: typeguard's verdict on value \<open>v\<close> for annotation \<open>t\<close>, the text of
    its \<open>TypeCheckError\<close> when it rejects;
  \<^item> \<open>set_level v\<close>: python-pptx assigning \<open>v\<close> to a paragraph's level;
  \<^item> \<open>open_picture v\<close>: python-pptx reading the image file named \<open>v\<close> in \<open>add_picture\<close>;
  \<^item> \<open>loadtxt v\<close>: \<open>np.loadtxt(v, delimiter=';')\<close>;
  \<^item> \<open>save path doc\<close>: \<open>presentation.save(path)\<close>.
\<close>

record world =
  read_json :: "string \<Rightarrow> exn + json"
  check_type :: "json \<Rightarrow> pytype \<Rightarrow> detail option"
  set_level :: "json \<Rightarrow> exn option"
  open_picture :: "json \<Rightarrow> exn option"
  loadtxt :: "json \<Rightarrow> exn + ndarray"
  save :: "string \<Rightarrow> slide list \<Rightarrow> exn option"

section \<open>slides.py\<close>

text \<open>
  The objects a slide constructor writes to: the slides of the presentation and pyplot's
  current figure. \<open>self.ref\<close> is the slide that \<open>Slide.__init__\<close> has just added, the last
  one.
\<close>

record heap =
  slides :: "slide list"
  figure :: pyplot

definition Slide_init :: "nat \<Rightarrow> heap \<Rightarrow> heap" where
  "Slide_init l h = h\<lparr>slides := slides h @ [add_slide l]\<rparr>"

definition on_ref :: "(slide \<Rightarrow> slide) \<Rightarrow> heap \<Rightarrow> heap" where
  "on_ref f h = h\<lparr>slides := butlast (slides h) @ [f (last (slides h))]\<rparr>"

definition set_title :: "json \<Rightarrow> heap \<Rightarrow> heap" where
  "set_title t = on_ref (\<lambda>s. s\<lparr>title_text := Some t\<rparr>)"

definition add_shape :: "shape \<Rightarrow> heap \<Rightarrow> heap" where
  "add_shape sh = on_ref (\<lambda>s. s\<lparr>shapes := shapes s @ [sh]\<rparr>)"

text \<open>
  \<open>@typeguard.typechecked\<close>: the annotated arguments are checked in the order of the
  signature when the body is entered.
\<close>

fun typechecked :: "world \<Rightarrow> (json \<times> pytype) list \<Rightarrow> exn option" where
  "typechecked w [] = None"
| "typechecked w ((v, t) # rest) =
     (case check_type w v t of
        Some d \<Rightarrow> Some (Exn TypeCheckError d)
      | None \<Rightarrow> typechecked w rest)"

definition TitleSlide :: "world \<Rightarrow> heap \<Rightarrow> (string \<times> json) list \<Rightarrow> exn option \<times> heap" where
  "TitleSlide w h kw =
     (case bind_kwargs [''title'', ''content''] kw of
        Some e \<Rightarrow> (Some e, h)
      | None \<Rightarrow>
          (let title = kwarg kw ''title'' (JStr '''');
               content = kwarg kw ''content'' (JStr '''')
           in case typechecked w [(title, TStr), (content, TStr)] of
                Some e \<Rightarrow> (Some e, h)
              | None \<Rightarrow>
                  (None,
                   on_ref (\<lambda>s. s\<lparr>placeholder1_text := Some content\<rparr>)
                     (set_title title (Slide_init 0 h)))))"

definition TextSlide :: "world \<Rightarrow> heap \<Rightarrow> (string \<times> json) list \<Rightarrow> exn option \<times> heap" where
  "TextSlide w h kw =
     (case bind_kwargs [''title'', ''content''] kw of
        Some e \<Rightarrow> (Some e, h)
      | None \<Rightarrow>
          (let title = kwarg kw ''title'' (JStr '''');
               content = kwarg kw ''content'' (JStr '''')
           in case typechecked w [(title, TStr), (content, TStr)] of
                Some e \<Rightarrow> (Some e, h)
              | None \<Rightarrow>
                  (None, add_shape (TextBox 1 2 1 1 content) (set_title title (Slide_init 5 h)))))"

text \<open>
  The loop of \<open>ListSlide.__init__\<close> over the text frame \<open>tf\<close> of placeholder 1:
  \<open>tf.add_paragraph()\<close> adds an empty paragraph of level 0, then its text and its level
  are assigned.
\<close>

fun add_paragraphs ::
  "world \<Rightarrow> json list \<Rightarrow> (json \<times> json) list \<Rightarrow> exn option \<times> (json \<times> json) list"
where
  "add_paragraphs w [] tf = (None, tf)"
| "add_paragraphs w (kwargs # rest) tf =
     (case py_getitem kwargs ''text'' of
        Inl e \<Rightarrow> (Some e, tf @ [(JStr '''', JInt 0)])
      | Inr t \<Rightarrow>
          (case py_getitem kwargs ''level'' of
             Inl e \<Rightarrow> (Some e, tf @ [(t, JInt 0)])
           | Inr l \<Rightarrow>
               (case set_level w l of
                  Some e \<Rightarrow> (Some e, tf @ [(t, JInt 0)])
                | None \<Rightarrow> add_paragraphs w rest (tf @ [(t, l)]))))"

definition ListSlide :: "world \<Rightarrow> heap \<Rightarrow> (string \<times> json) list \<Rightarrow> exn option \<times> heap" where
  "ListSlide w h kw =
     (case bind_kwargs [''title'', ''content''] kw of
        Some e \<Rightarrow> (Some e, h)
      | None \<Rightarrow>
          (let title = kwarg kw ''title'' (JStr '''');
               content = kwarg kw ''content'' (JList [])
           in case typechecked w [(title, TStr), (content, TList ListElements)] of
                Some e \<Rightarrow> (Some e, h)
              | None \<Rightarrow>
                  (let h1 = set_title title (Slide_init 1 h)
                   in case py_iter content of
                        Inl e \<Rightarrow> (Some e, h1)
                      | Inr items \<Rightarrow>
                          (let (r, tf) = add_paragraphs w items []
                           in (r, on_ref (\<lambda>s. s\<lparr>paragraphs := tf\<rparr>) h1)))))"

definition PictureSlide :: "world \<Rightarrow> heap \<Rightarrow> (string \<times> json) list \<Rightarrow> exn option \<times> heap" where
  "PictureSlide w h kw =
     (case bind_kwargs [''title'', ''content''] kw of
        Some e \<Rightarrow> (Some e, h)
      | None \<Rightarrow>
          (let title = kwarg kw ''title'' (JStr '''');
               content = kwarg kw ''content'' (JStr '''')
           in case typechecked w [(title, TStr), (content, TStr)] of
                Some e \<Rightarrow> (Some e, h)
              | None \<Rightarrow>
                  (let h1 = set_title title (Slide_init 5 h)
                   in case open_picture w content of
                        Some e \<Rightarrow> (Some e, h1)
                      | None \<Rightarrow> (None, add_shape (PictureFile content 1 2 5) h1))))"

definition PlotSlide :: "world \<Rightarrow> heap \<Rightarrow> (string \<times> json) list \<Rightarrow> exn option \<times> heap" where
  "PlotSlide w h kw =
     (case bind_kwargs [''title'', ''content'', ''configuration''] kw of
        Some e \<Rightarrow> (Some e, h)
      | None \<Rightarrow>
          (let title = kwarg kw ''title'' (JStr '''');
               content = kwarg kw ''content'' (JStr '''');
               configuration = kwarg kw ''configuration'' (JDict [])
           in case typechecked w [(title, TStr), (content, TStr), (configuration, TDict)] of
                Some e \<Rightarrow> (Some e, h)
              | None \<Rightarrow>
                  (let h1 = set_title title (Slide_init 5 h)
                   in case loadtxt w content of
                        Inl e \<Rightarrow> (Some e, h1)
                      | Inr data \<Rightarrow>
                  (case column data 0 of
                        Inl e \<Rightarrow> (Some e, h1)
                      | Inr xs \<Rightarrow>
                  (case column data 1 of
                        Inl e \<Rightarrow> (Some e, h1)
                      | Inr ys \<Rightarrow>
                  (let h2 = h1\<lparr>figure := plt_plot xs ys (figure h1)\<rparr>
                   in case py_getitem configuration ''x-label'' of
                        Inl e \<Rightarrow> (Some e, h2)
                      | Inr xl \<Rightarrow>
                  (let h3 = h2\<lparr>figure := plt_xlabel xl (figure h2)\<rparr>
                   in case py_getitem configuration ''y-label'' of
                        Inl e \<Rightarrow> (Some e, h3)
                      | Inr yl \<Rightarrow>
                  (let h4 = h3\<lparr>figure := plt_ylabel yl (figure h3)\<rparr>;
                       img_stream = plt_savefig (figure h4)
                   in (None, add_shape (PictureStream img_stream 1 2 5) h4)))))))))"

text \<open>
  \<open>Slide.from_dict\<close>. The third component of the result is the caller's dictionary after
  the call: \<open>dict.pop\<close> works on the object the caller passed.
\<close>

definition from_dict :: "world \<Rightarrow> heap \<Rightarrow> json \<Rightarrow> exn option \<times> heap \<times> json" where
  "from_dict w h d =
     (case py_pop d ''type'' of
        Inl e \<Rightarrow> (Some e, h, d)
      | Inr (type, d') \<Rightarrow>
          (let kw = (case d' of JDict kv \<Rightarrow> kv | _ \<Rightarrow> [])
           in if type = JStr ''title'' then (let (r, h') = TitleSlide w h kw in (r, h', d'))
              else if type = JStr ''text'' then (let (r, h') = TextSlide w h kw in (r, h', d'))
              else if type = JStr ''list'' then (let (r, h') = ListSlide w h kw in (r, h', d'))
              else if type = JStr ''picture'' then (let (r, h') = PictureSlide w h kw in (r, h', d'))
              else if type = JStr ''plot'' then (let (r, h') = PlotSlide w h kw in (r, h', d'))
              else (Some (Exn ValueError (InvalidSlideType type)), h, d')))"

section \<open>app.py\<close>

text \<open>
  The messages of the logger, one constructor for each text that \<open>generate\<close> formats;
  the arguments are the values inserted into the text. The two handlers of the slide
  loop that format the same text share \<open>SlideNotValid\<close>.
\<close>

datatype message =
    CouldntLoad string
  | NotValidJSON string detail
  | ConfigNotValid string detail
  | ConfigLoaded string
  | SlideNotValid nat detail
  | SlideMissingProperty nat detail
  | SlideFileDependency nat detail
  | SlideGenerated nat
  | CouldntSave string detail
  | PresentationSaved string

datatype log_record = ERROR message | INFO message

text \<open>
  What a run of the program leaves behind: the records of the logger, the files that
  \<open>presentation.save\<close> has written, and pyplot's module-global figure.
\<close>

record process =
  log :: "log_record list"
  files :: "string \<Rightarrow> slide list option"
  plt :: pyplot

text \<open>
  How a block of statements ends: it runs to its end, it executes \<open>return\<close>, or an
  exception leaves it.
\<close>

datatype outcome = Completed | Returned | Raised exn

text \<open>
  The \<open>try\<close> block that loads the configuration: \<open>open\<close> and \<open>json.load\<close>, then
  \<open>typeguard.check_type(data, Config)\<close>.
\<close>

definition load_config :: "world \<Rightarrow> string \<Rightarrow> exn + json" where
  "load_config w config =
     (case read_json w config of
        Inl e \<Rightarrow> Inl e
      | Inr data \<Rightarrow>
          (case check_type w data Config of
             Some d \<Rightarrow> Inl (Exn TypeCheckError d)
           | None \<Rightarrow> Inr data))"

text \<open>The \<open>except\<close> clauses of that block, in their order.\<close>

definition load_handlers :: "string \<Rightarrow> exn \<Rightarrow> log_record list \<Rightarrow> outcome \<times> log_record list" where
  "load_handlers config e lg =
     (if isinstance e OSError then (Returned, lg @ [ERROR (CouldntLoad config)])
      else if isinstance e JSONDecodeError then
        (Returned, lg @ [ERROR (NotValidJSON config (str_exn e))])
      else if isinstance e TypeCheckError then
        (Returned, lg @ [ERROR (ConfigNotValid config (str_exn e))])
      else (Raised e, lg))"

text \<open>The \<open>except\<close> clauses of the slide loop, in their order; \<open>n\<close> is \<open>i+1\<close>.\<close>

definition slide_handlers :: "nat \<Rightarrow> exn \<Rightarrow> log_record list \<Rightarrow> outcome \<times> log_record list" where
  "slide_handlers n e lg =
     (if isinstance e TypeCheckError then (Returned, lg @ [ERROR (SlideNotValid n (str_exn e))])
      else if isinstance e ValueError then (Returned, lg @ [ERROR (SlideNotValid n (str_exn e))])
      else if isinstance e KeyError then
        (Returned, lg @ [ERROR (SlideMissingProperty n (str_exn e))])
      else if isinstance e OSError then
        (Returned, lg @ [ERROR (SlideFileDependency n (str_exn e))])
      else (Raised e, lg))"

text \<open>
  The loop \<open>for i, slide_properties in enumerate(data["presentation"])\<close>, from index
  \<open>i\<close> on.
\<close>

fun slide_loop ::
  "world \<Rightarrow> nat \<Rightarrow> json list \<Rightarrow> heap \<Rightarrow> log_record list \<Rightarrow> outcome \<times> heap \<times> log_record list"
where
  "slide_loop w i [] h lg = (Completed, h, lg)"
| "slide_loop w i (slide_properties # rest) h lg =
     (case from_dict w h slide_properties of
        (Some e, h', d') \<Rightarrow>
          (let (out, lg') = slide_handlers (i + 1) e lg in (out, h', lg'))
      | (None, h', d') \<Rightarrow>
          slide_loop w (i + 1) rest h' (lg @ [INFO (SlideGenerated (i + 1))]))"

text \<open>The last block of \<open>generate\<close>: saving the presentation.\<close>

definition save_presentation ::
  "world \<Rightarrow> string \<Rightarrow> slide list \<Rightarrow> process \<Rightarrow> exn option \<times> process"
where
  "save_presentation w output doc p =
     (case save w output doc of
        Some e \<Rightarrow>
          (if isinstance e OSError then
             (None, p\<lparr>log := log p @ [ERROR (CouldntSave output (str_exn e))]\<rparr>)
           else (Some e, p))
      | None \<Rightarrow>
          (None, p\<lparr>files := (files p)(output \<mapsto> doc),
                    log := log p @ [INFO (PresentationSaved output)]\<rparr>))"

text \<open>
  \<open>App.generate\<close>. The result is the exception that leaves the method, if one does, and
  the process after the call.
\<close>

definition generate :: "world \<Rightarrow> process \<Rightarrow> string \<Rightarrow> string \<Rightarrow> exn option \<times> process" where
  "generate w p config output =
     (let presentation = \<lparr>slides = [], figure = plt p\<rparr>
      in case load_config w config of
           Inl e \<Rightarrow>
             (case load_handlers config e (log p) of
                (Raised e', lg) \<Rightarrow> (Some e', p\<lparr>log := lg\<rparr>)
              | (out, lg) \<Rightarrow> (None, p\<lparr>log := lg\<rparr>))
         | Inr data \<Rightarrow>
             (let lg = log p @ [INFO (ConfigLoaded config)]
              in case py_getitem data ''presentation'' of
                   Inl e \<Rightarrow> (Some e, p\<lparr>log := lg\<rparr>)
                 | Inr specs \<Rightarrow>
                     (case py_iter specs of
                        Inl e \<Rightarrow> (Some e, p\<lparr>log := lg\<rparr>)
                      | Inr items \<Rightarrow>
                          (case slide_loop w 0 items presentation lg of
                             (Raised e, h, lg') \<Rightarrow> (Some e, p\<lparr>log := lg', plt := figure h\<rparr>)
                           | (Returned, h, lg') \<Rightarrow> (None, p\<lparr>log := lg', plt := figure h\<rparr>)
                           | (Completed, h, lg') \<Rightarrow>
                               save_presentation w output (slides h)
                                 (p\<lparr>log := lg', plt := figure h\<rparr>)))))"

section \<open>cli.py\<close>

text \<open>
  The documentation of a function as \<open>docstring_parser.parse\<close> returns it: the short and
  the long description and the documented parameters.
\<close>

record param_doc =
  arg_name :: string
  type_name :: "string option"
  description :: "string option"
  is_optional :: "bool option"

record docstring =
  short_description :: "string option"
  long_description :: "string option"
  params :: "param_doc list"

text \<open>
  A function object: its \<open>__name__\<close>, its \<open>__doc__\<close> (\<open>None\<close> when it has no docstring,
  else the docstring in the parsed form), and whether it has the attributes
  \<open>is_command\<close> and \<open>is_default_command\<close>.
\<close>

record func =
  name :: string
  doc :: "docstring option"
  is_command :: bool
  is_default_command :: bool

definition command :: "func \<Rightarrow> exn + func" where
  "command f =
     (if doc f = None then Inl (Exn AttributeError (HasNoDocstring (name f)))
      else Inr (f\<lparr>is_command := True\<rparr>))"

definition default_command :: "func \<Rightarrow> func" where
  "default_command f = f\<lparr>is_command := True, is_default_command := True\<rparr>"

text \<open>
  The object that \<open>CommandlineInterface.__init__\<close> inspects: the docstring of its class
  and its callable attributes, in the order of \<open>dir(self)\<close>.
\<close>

record handler =
  class_doc :: "docstring option"
  methods :: "func list"

text \<open>What the constructor registers with argparse for one documented parameter.\<close>

datatype action = store | store_true

datatype converter = builtin_int | builtin_str | builtin_bool | other_attribute string

record argument =
  option_string :: string
  action :: action
  arg_type :: "converter option"
  arg_help :: "string option"
  required :: bool

record subparser =
  prog_name :: string
  sp_description :: string
  cmd_default :: string
  arguments :: "argument list"

record cli =
  self_description :: string
  parser_description :: string
  subparsers :: "subparser list"
  cmds :: "(string \<times> func) list"

text \<open>\<open>s.replace('_', '-')\<close> and, for argparse's \<open>dest\<close>, its converse.\<close>

definition hyphenate :: "string \<Rightarrow> string" where
  "hyphenate s = map (\<lambda>c. if c = CHR ''_'' then CHR ''-'' else c) s"

definition underscore :: "string \<Rightarrow> string" where
  "underscore s = map (\<lambda>c. if c = CHR ''-'' then CHR ''_'' else c) s"

text \<open>
  \<open>getattr(sys.modules[__name__], type_name)\<close>: the names that cli.py binds are its
  imports (among them \<open>int\<close>, \<open>str\<close> and \<open>bool\<close> from \<open>builtins\<close>), its two decorators and
  its class, besides the attributes that every module has.
\<close>

definition module_names :: "string list" where
  "module_names =
     [''argparse'', ''wraps'', ''re'', ''docstring_parser'', ''sys'',
      ''command'', ''default_command'', ''CommandlineInterface'',
      ''__name__'', ''__doc__'', ''__package__'', ''__loader__'', ''__spec__'',
      ''__file__'', ''__cached__'', ''__builtins__'']"

definition module_getattr :: "string option \<Rightarrow> exn + converter" where
  "module_getattr tn =
     (case tn of
        None \<Rightarrow> Inl (Exn TypeError (Text ''attribute name must be string, not NoneType''))
      | Some n \<Rightarrow>
          (if n = ''int'' then Inr builtin_int
           else if n = ''str'' then Inr builtin_str
           else if n = ''bool'' then Inr builtin_bool
           else if n \<in> set module_names then Inr (other_attribute n)
           else Inl (Exn AttributeError (Text (''module has no attribute '' @ n)))))"

text \<open>
  \<open>parser.add_argument\<close>: argparse refuses an option string that the parser already has;
  every parser starts with \<open>-h\<close> and \<open>--help\<close>.
\<close>

definition add_argument :: "argument \<Rightarrow> argument list \<Rightarrow> exn + argument list" where
  "add_argument a args =
     (if option_string a \<in> set (map option_string args) \<union> {''-h'', ''--help''}
      then Inl (Exn ArgumentError (Text (''conflicting option string: '' @ option_string a)))
      else Inr (args @ [a]))"

text \<open>The loop \<open>for arg in doc.params\<close>.\<close>

fun add_params :: "param_doc list \<Rightarrow> argument list \<Rightarrow> exn + argument list" where
  "add_params [] args = Inr args"
| "add_params (a # rest) args =
     (if type_name a = Some ''bool'' then
        (case add_argument
                \<lparr>option_string = ''--'' @ hyphenate (arg_name a), action = store_true,
                 arg_type = None, arg_help = description a, required = False\<rparr> args of
           Inl e \<Rightarrow> Inl e
         | Inr args' \<Rightarrow> add_params rest args')
      else
        (case module_getattr (type_name a) of
           Inl e \<Rightarrow> Inl e
         | Inr t \<Rightarrow>
             (case add_argument
                     \<lparr>option_string = ''--'' @ hyphenate (arg_name a), action = store,
                      arg_type = Some t, arg_help = description a,
                      required = (is_optional a \<noteq> Some True)\<rparr> args of
                Inl e \<Rightarrow> Inl e
              | Inr args' \<Rightarrow> add_params rest args')))"

text \<open>\<open>docstring_parser.parse\<close> of a \<open>__doc__\<close> that is \<open>None\<close> is the empty docstring.\<close>

definition parse_doc :: "docstring option \<Rightarrow> docstring" where
  "parse_doc d =
     (case d of
        None \<Rightarrow> \<lparr>short_description = None, long_description = None, params = []\<rparr>
      | Some x \<Rightarrow> x)"

text \<open>
  The loop \<open>for attr in dir(self)\<close>, over the callable attributes. The variable
  \<open>help_text\<close> lives on from one iteration to the next.
\<close>

fun find_commands :: "func list \<Rightarrow> string \<Rightarrow> cli \<Rightarrow> exn + cli" where
  "find_commands [] help_text c = Inr c"
| "find_commands (obj # rest) help_text c =
     (if is_command obj then
        (if is_default_command obj then
           find_commands rest help_text (c\<lparr>cmds := AList.update [] obj (cmds c)\<rparr>)
         else
           (let d = parse_doc (doc obj);
                help1 = (case short_description d of Some s \<Rightarrow> s | None \<Rightarrow> help_text);
                help2 = (case long_description d of
                           Some l \<Rightarrow> help1 @ [CHR 0x0A, CHR 0x0A] @ l
                         | None \<Rightarrow> help1);
                cmd = hyphenate (name obj)
            in case add_params (params d) [] of
                 Inl e \<Rightarrow> Inl e
               | Inr args \<Rightarrow>
                   find_commands rest help2
                     (c\<lparr>subparsers := subparsers c @
                          [\<lparr>prog_name = cmd, sp_description = help2, cmd_default = cmd,
                            arguments = args\<rparr>],
                        cmds := AList.update cmd obj (cmds c)\<rparr>)))
      else find_commands rest help_text c)"

text \<open>
  \<open>CommandlineInterface.__init__\<close>. An instance has no \<open>__name__\<close>, so formatting the
  message of the first \<open>raise\<close> is itself an \<open>AttributeError\<close>; \<open>str + None\<close> is a
  \<open>TypeError\<close>.
\<close>

definition CommandlineInterface_init :: "handler \<Rightarrow> exn + cli" where
  "CommandlineInterface_init self =
     (case class_doc self of
        None \<Rightarrow> Inl (Exn AttributeError (Text ''object has no attribute __name__''))
      | Some d \<Rightarrow>
          (case short_description d of
             None \<Rightarrow> Inl (Exn TypeError (Text ''unsupported operand type(s) for +: NoneType and str''))
           | Some s \<Rightarrow>
               (case long_description d of
                  None \<Rightarrow> Inl (Exn TypeError (Text ''can only concatenate str (not NoneType) to str''))
                | Some l \<Rightarrow>
                    (let help_text = s @ [CHR 0x0A, CHR 0x0A] @ l
                     in find_commands (methods self) help_text
                          \<lparr>self_description = s, parser_description = help_text,
                           subparsers = [], cmds = []\<rparr>))))"









text \<open>
  The class \<open>App\<close> of app.py: its docstring and its methods, \<open>generate\<close> decorated with
  \<open>command\<close> and \<open>default\<close> with \<open>default_command\<close>. A decorator that raises ends the
  class statement.
\<close>

definition App_doc :: docstring where
  "App_doc =
     \<lparr>short_description = Some ''SlidePy'',
      long_description = Some
        ''This application is used to generate a report in pptx format based on a configuration file.'',
      params = []\<rparr>"

definition generate_doc :: docstring where
  "generate_doc =
     \<lparr>short_description = Some ''Report generation'',
      long_description = Some
        ''Use this subcommand to generate a report based on a configuration file.'',
      params =
        [\<lparr>arg_name = ''config'', type_name = Some ''str'',
          description = Some ''Path to the configuration file'', is_optional = Some False\<rparr>,
         \<lparr>arg_name = ''output'', type_name = Some ''str'',
          description = Some ''Save the generated report into this file'',
          is_optional = Some False\<rparr>]\<rparr>"

definition def :: "string \<Rightarrow> docstring option \<Rightarrow> func" where
  "def n d = \<lparr>name = n, doc = d, is_command = False, is_default_command = False\<rparr>"

definition App :: "exn + handler" where
  "App =
     (case command (def ''generate'' (Some generate_doc)) of
        Inl e \<Rightarrow> Inl e
      | Inr generate_method \<Rightarrow>
          Inr \<lparr>class_doc = Some App_doc,
               methods =
                 [def ''__init__'' None,
                  def ''_configure_logger'' None,
                  default_command (def ''default'' None),
                  generate_method,
                  def ''run'' (Some \<lparr>short_description =
                                     Some ''Parse commandline arguments and execute the corresponding command.'',
                                   long_description = None, params = []\<rparr>)]\<rparr>)"

section \<open>Slide specifications\<close>

definition empty_figure :: pyplot where
  "empty_figure = \<lparr>lines = [], xlabel = None, ylabel = None\<rparr>"

text \<open>
  The specification's data model of a slide specification, stated on the JSON value alone:
  an object whose \<open>type\<close> is one of the five tags and that has no field besides those of
  its type. \<open>title\<close> is a text; \<open>content\<close> is a text for \<open>title\<close>, \<open>text\<close>, \<open>picture\<close> and
  \<open>plot\<close>, and a sequence of records of an integer \<open>level\<close> and a text \<open>text\<close> for
  \<open>list\<close>; both may be left out. \<open>configuration\<close> of a \<open>plot\<close> is an object with the
  texts \<open>x-label\<close> and \<open>y-label\<close>.
\<close>

definition text_field :: "(string \<times> json) list \<Rightarrow> string \<Rightarrow> bool" where
  "text_field kv k =
     (case map_of kv k of
        None \<Rightarrow> True
      | Some v \<Rightarrow> (case v of JStr s \<Rightarrow> True | _ \<Rightarrow> False))"

definition required_text :: "(string \<times> json) list \<Rightarrow> string \<Rightarrow> bool" where
  "required_text kv k =
     (case map_of kv k of
        None \<Rightarrow> False
      | Some v \<Rightarrow> (case v of JStr s \<Rightarrow> True | _ \<Rightarrow> False))"

definition list_element :: "json \<Rightarrow> bool" where
  "list_element v =
     (case v of
        JDict kv \<Rightarrow>
          set (map fst kv) = {''level'', ''text''} \<and>
          (case map_of kv ''level'' of
             None \<Rightarrow> False
           | Some l \<Rightarrow> (case l of JInt n \<Rightarrow> True | _ \<Rightarrow> False)) \<and>
          required_text kv ''text''
      | _ \<Rightarrow> False)"

definition valid_slide :: "json \<Rightarrow> bool" where
  "valid_slide spec =
     (case spec of
        JDict kv \<Rightarrow>
          (case map_of kv ''type'' of
             None \<Rightarrow> False
           | Some ty \<Rightarrow>
               if ty = JStr ''title'' \<or> ty = JStr ''text'' \<or> ty = JStr ''picture'' then
                 set (map fst kv) \<subseteq> {''type'', ''title'', ''content''} \<and>
                 text_field kv ''title'' \<and> text_field kv ''content''
               else if ty = JStr ''list'' then
                 set (map fst kv) \<subseteq> {''type'', ''title'', ''content''} \<and>
                 text_field kv ''title'' \<and>
                 (case map_of kv ''content'' of
                    None \<Rightarrow> True
                  | Some c \<Rightarrow> (case c of JList items \<Rightarrow> list_all list_element items | _ \<Rightarrow> False))
               else if ty = JStr ''plot'' then
                 set (map fst kv) \<subseteq> {''type'', ''title'', ''content'', ''configuration''} \<and>
                 text_field kv ''title'' \<and> text_field kv ''content'' \<and>
                 (case map_of kv ''configuration'' of
                    None \<Rightarrow> False
                  | Some c \<Rightarrow>
                      (case c of
                         JDict labels \<Rightarrow>
                           required_text labels ''x-label'' \<and> required_text labels ''y-label''
                       | _ \<Rightarrow> False))
               else False)
      | _ \<Rightarrow> False)"

text \<open>
  What a slide specification needs of its surroundings: the image file that a \<open>picture\<close>
  names can be read, the data file that a \<open>plot\<close> names holds a table of at least two
  columns, and the document library takes the levels of a \<open>list\<close>.
\<close>

definition level_taken :: "world \<Rightarrow> json \<Rightarrow> bool" where
  "level_taken w item =
     (case py_getitem item ''level'' of
        Inl e \<Rightarrow> True
      | Inr l \<Rightarrow> set_level w l = None)"

definition resources :: "world \<Rightarrow> json \<Rightarrow> bool" where
  "resources w spec =
     (case spec of
        JDict kv \<Rightarrow>
          (case map_of kv ''type'' of
             None \<Rightarrow> True
           | Some ty \<Rightarrow>
               if ty = JStr ''list'' then
                 (case kwarg kv ''content'' (JList []) of
                    JList items \<Rightarrow> list_all (level_taken w) items
                  | _ \<Rightarrow> True)
               else if ty = JStr ''picture'' then
                 open_picture w (kwarg kv ''content'' (JStr '''')) = None
               else if ty = JStr ''plot'' then
                 (case loadtxt w (kwarg kv ''content'' (JStr '''')) of
                    Inl e \<Rightarrow> False
                  | Inr data \<Rightarrow> (case data of Array2 cols \<Rightarrow> 2 \<le> length cols | _ \<Rightarrow> False))
               else True)
      | _ \<Rightarrow> True)"

text \<open>
  The values of an annotation: \<open>str\<close>, \<open>int\<close> (of which \<open>bool\<close> is a subclass), \<open>dict\<close>,
  \<open>list[t]\<close> and a \<open>TypedDict\<close>, whose keys are those declared.
\<close>

fun conforms :: "json \<Rightarrow> pytype \<Rightarrow> bool" where
  "conforms v TStr = (case v of JStr s \<Rightarrow> True | _ \<Rightarrow> False)"
| "conforms v TInt = (case v of JInt n \<Rightarrow> True | JBool b \<Rightarrow> True | _ \<Rightarrow> False)"
| "conforms v TDict = (case v of JDict kv \<Rightarrow> True | _ \<Rightarrow> False)"
| "conforms v (TList t) = (case v of JList xs \<Rightarrow> list_all (\<lambda>x. conforms x t) xs | _ \<Rightarrow> False)"
| "conforms v (TTypedDict fs) =
     (case v of
        JDict kv \<Rightarrow>
          set (map fst kv) = set (map fst fs) \<and>
          list_all (\<lambda>(k, t). case map_of kv k of Some x \<Rightarrow> conforms x t | None \<Rightarrow> False) fs
      | _ \<Rightarrow> False)"

text \<open>typeguard raises nothing for a value of the annotation it is asked about.\<close>

definition accepts_instances :: "world \<Rightarrow> bool" where
  "accepts_instances w \<longleftrightarrow> (\<forall>v t. conforms v t \<longrightarrow> check_type w v t = None)"

text \<open>
  Slide \<open>s\<close> answers specification \<open>spec\<close>: it has the layout that the constructor of the
  specification's type passes to \<open>Slide.__init__\<close>, and the specification's title.
\<close>

definition built :: "json \<Rightarrow> slide \<Rightarrow> bool" where
  "built spec s \<longleftrightarrow>
     (\<exists>kv t. spec = JDict kv \<and> map_of kv ''type'' = Some (JStr t) \<and>
        t \<in> {''title'', ''text'', ''list'', ''picture'', ''plot''} \<and>
        layout s = (if t = ''title'' then 0 else if t = ''list'' then 1 else 5) \<and>
        title_text s = Some (kwarg kv ''title'' (JStr '''')))"

section \<open>An environment for the examples\<close>

text \<open>
  A file system with the configuration files \<open>configs\<close>, the file \<open>broken.json\<close> that
  is not JSON, the file \<open>latin1.json\<close> whose bytes are not text in the encoding of
  \<open>open\<close>, the image \<open>logo.png\<close>, the data
  files \<open>sample.dat\<close> and \<open>other.dat\<close> of two columns, \<open>one_column.dat\<close> of one column and
  \<open>words.dat\<close>, which holds no numbers; a type checker that rejects exactly the values
  that are not of the annotation; every level is accepted and every path can be written.
\<close>

definition example_world :: "(string \<times> json) list \<Rightarrow> world" where
  "example_world configs =
     \<lparr>read_json = (\<lambda>path. case map_of configs path of
                            Some v \<Rightarrow> Inr v
                          | None \<Rightarrow>
                              if path = ''broken.json'' then
                                Inl (Exn JSONDecodeError (Text ''Expecting value: line 1 column 1 (char 0)''))
                              else if path = ''latin1.json'' then
                                Inl (Exn UnicodeDecodeError (Text ''invalid continuation byte''))
                              else Inl (Exn FileNotFoundError (Text ''No such file or directory''))),
      check_type = (\<lambda>v t. if conforms v t then None else Some (Text ''is not an instance of the type'')),
      set_level = (\<lambda>v. None),
      open_picture = (\<lambda>v. if v = JStr ''logo.png'' then None
                           else Some (Exn FileNotFoundError (Text ''No such file or directory''))),
      loadtxt = (\<lambda>v. if v = JStr ''sample.dat'' then Inr (Array2 [[0, 1, 2], [0, 1, 4]])
                      else if v = JStr ''other.dat'' then Inr (Array2 [[0, 1], [5, 3]])
                      else if v = JStr ''one_column.dat'' then Inr (Array1 [1, 2, 3])
                      else if v = JStr ''words.dat'' then
                        Inl (Exn ValueError (Text ''could not convert string to float''))
                      else Inl (Exn FileNotFoundError (Text ''No such file or directory''))),
      save = (\<lambda>path doc. None)\<rparr>"

definition fresh_process :: process where
  "fresh_process = \<lparr>log = [], files = Map.empty, plt = empty_figure\<rparr>"

definition title_spec :: json where
  "title_spec = JDict [(''type'', JStr ''title''), (''title'', JStr ''T''), (''content'', JStr ''C'')]"

definition text_spec :: json where
  "text_spec = JDict [(''type'', JStr ''text''), (''title'', JStr ''X''), (''content'', JStr ''Hello'')]"

definition picture_spec :: json where
  "picture_spec =
     JDict [(''type'', JStr ''picture''), (''title'', JStr ''I''), (''content'', JStr ''logo.png'')]"

definition list_spec :: json where
  "list_spec =
     JDict [(''type'', JStr ''list''), (''title'', JStr ''L''),
            (''content'', JList [JDict [(''level'', JInt 0), (''text'', JStr ''a'')],
                                JDict [(''level'', JInt 1), (''text'', JStr ''b'')]])]"

definition plot_spec :: "string \<Rightarrow> json" where
  "plot_spec file =
     JDict [(''type'', JStr ''plot''), (''title'', JStr ''P''), (''content'', JStr file),
            (''configuration'', JDict [(''x-label'', JStr ''x''), (''y-label'', JStr ''y'')])]"

definition config_of :: "json list \<Rightarrow> json" where
  "config_of specs = JDict [(''presentation'', JList specs)]"

text \<open>
  The lines that building a slide specification leaves on pyplot's figure: those on the
  figure after \<open>Slide.from_dict\<close> has run on an empty figure, whether it raised or not.
\<close>

definition plotted :: "world \<Rightarrow> json \<Rightarrow> (real list \<times> real list) list" where
  "plotted w spec =
     lines (figure (fst (snd (from_dict w \<lparr>slides = [], figure = empty_figure\<rparr> spec))))"

text \<open>
  \<open>App()\<close>, as far as the command-line interface goes: the class statement, then
  \<open>CommandlineInterface.__init__\<close> called by \<open>App.__init__\<close>.
\<close>

definition App_init :: "exn + cli" where
  "App_init = (case App of Inl e \<Rightarrow> Inl e | Inr self \<Rightarrow> CommandlineInterface_init self)"

section \<open>Shared lemmas\<close>

lemma map_of_filter_neq: "map_of (filter (\<lambda>(k', v'). k' \<noteq> k) kv) k = None"
  by (induction kv) auto

lemmas ctor_defs = TitleSlide_def TextSlide_def ListSlide_def PictureSlide_def PlotSlide_def
lemmas heap_defs = Slide_init_def on_ref_def set_title_def add_shape_def add_slide_def
  plt_plot_def plt_xlabel_def plt_ylabel_def plt_savefig_def

lemma TitleSlide_ok:
  "TitleSlide w h kw = (None, h') \<Longrightarrow>
   h' = h\<lparr>slides := slides h @
          [\<lparr>layout = 0, title_text = Some (kwarg kw ''title'' (JStr '''')),
            placeholder1_text = Some (kwarg kw ''content'' (JStr '''')), paragraphs = [], shapes = []\<rparr>]\<rparr>"
  by (auto simp: TitleSlide_def heap_defs Let_def split: option.splits)

lemma TextSlide_ok:
  "TextSlide w h kw = (None, h') \<Longrightarrow>
   h' = h\<lparr>slides := slides h @
          [\<lparr>layout = 5, title_text = Some (kwarg kw ''title'' (JStr '''')),
            placeholder1_text = None, paragraphs = [],
            shapes = [TextBox 1 2 1 1 (kwarg kw ''content'' (JStr ''''))]\<rparr>]\<rparr>"
  by (auto simp: TextSlide_def heap_defs Let_def split: option.splits)

lemma ListSlide_ok:
  "ListSlide w h kw = (None, h') \<Longrightarrow>
   \<exists>tf. h' = h\<lparr>slides := slides h @
          [\<lparr>layout = 1, title_text = Some (kwarg kw ''title'' (JStr '''')),
            placeholder1_text = None, paragraphs = tf, shapes = []\<rparr>]\<rparr>"
  by (auto simp: ListSlide_def heap_defs Let_def split: option.splits sum.splits prod.splits)

lemma PictureSlide_ok:
  "PictureSlide w h kw = (None, h') \<Longrightarrow>
   h' = h\<lparr>slides := slides h @
          [\<lparr>layout = 5, title_text = Some (kwarg kw ''title'' (JStr '''')),
            placeholder1_text = None, paragraphs = [],
            shapes = [PictureFile (kwarg kw ''content'' (JStr '''')) 1 2 5]\<rparr>]\<rparr>"
  by (auto simp: PictureSlide_def heap_defs Let_def split: option.splits)

lemma PlotSlide_ok:
  "PlotSlide w h kw = (None, h') \<Longrightarrow>
   \<exists>data xs ys xl yl.
     loadtxt w (kwarg kw ''content'' (JStr '''')) = Inr data \<and>
     column data 0 = Inr xs \<and> column data 1 = Inr ys \<and>
     py_getitem (kwarg kw ''configuration'' (JDict [])) ''x-label'' = Inr xl \<and>
     py_getitem (kwarg kw ''configuration'' (JDict [])) ''y-label'' = Inr yl \<and>
     figure h' = \<lparr>lines = lines (figure h) @ [(xs, ys)], xlabel = Some xl, ylabel = Some yl\<rparr> \<and>
     slides h' = slides h @
          [\<lparr>layout = 5, title_text = Some (kwarg kw ''title'' (JStr '''')),
            placeholder1_text = None, paragraphs = [],
            shapes = [PictureStream (figure h') 1 2 5]\<rparr>]"
  by (auto simp: PlotSlide_def heap_defs Let_def split: option.splits sum.splits)

lemma map_of_filter_other: "k' \<noteq> k \<Longrightarrow> map_of (filter (\<lambda>(a, b). a \<noteq> k) kv) k' = map_of kv k'"
  by (induction kv) auto

lemma kwarg_filter: "k' \<noteq> k \<Longrightarrow> kwarg (filter (\<lambda>(a, b). a \<noteq> k) kv) k' d = kwarg kv k' d"
  by (simp add: kwarg_def map_of_filter_other)

lemma py_pop_Inr: "py_pop d k = Inr (v, d') \<Longrightarrow>
  \<exists>kv. d = JDict kv \<and> map_of kv k = Some v \<and> d' = JDict (filter (\<lambda>(a, b). a \<noteq> k) kv)"
  by (cases d) (auto split: option.splits)

lemma from_dict_ok:
  assumes "from_dict w h d = (None, h', d')"
  shows "\<exists>s. slides h' = slides h @ [s] \<and> built d s"
proof -
  from assms obtain ty d1 where pop: "py_pop d ''type'' = Inr (ty, d1)"
    by (auto simp: from_dict_def split: sum.splits)
  then obtain kv where d: "d = JDict kv" and ty: "map_of kv ''type'' = Some ty"
    and d1: "d1 = JDict (filter (\<lambda>(a, b). a \<noteq> ''type'') kv)"
    using py_pop_Inr by blast
  let ?kw = "filter (\<lambda>(a, b). a \<noteq> ''type'') kv"
  have t: "kwarg ?kw ''title'' (JStr '''') = kwarg kv ''title'' (JStr '''')"
    by (rule kwarg_filter) simp
  consider (c_title) "ty = JStr ''title''" "TitleSlide w h ?kw = (None, h')"
    | (c_text) "ty = JStr ''text''" "TextSlide w h ?kw = (None, h')"
    | (c_list) "ty = JStr ''list''" "ListSlide w h ?kw = (None, h')"
    | (c_picture) "ty = JStr ''picture''" "PictureSlide w h ?kw = (None, h')"
    | (c_plot) "ty = JStr ''plot''" "PlotSlide w h ?kw = (None, h')"
    using assms pop d1 by (auto simp: from_dict_def Let_def split: if_splits prod.splits)
  then show ?thesis
  proof cases
    case c_title
    from TitleSlide_ok[OF c_title(2)] show ?thesis
      using d ty c_title(1) t by (simp add: built_def)
  next
    case c_text
    from TextSlide_ok[OF c_text(2)] show ?thesis
      using d ty c_text(1) t by (simp add: built_def)
  next
    case c_list
    from ListSlide_ok[OF c_list(2)] show ?thesis
      using d ty c_list(1) t by (auto simp add: built_def)
  next
    case c_picture
    from PictureSlide_ok[OF c_picture(2)] show ?thesis
      using d ty c_picture(1) t by (simp add: built_def)
  next
    case c_plot
    from PlotSlide_ok[OF c_plot(2)] show ?thesis
      using d ty c_plot(1) t by (auto simp add: built_def)
  qed
qed

lemma add_paragraphs_status: "fst (add_paragraphs w items tf) = fst (add_paragraphs w items tf')"
  by (induction items arbitrary: tf tf') (auto split: sum.splits option.splits)

lemma TitleSlide_status: "fst (TitleSlide w h kw) = fst (TitleSlide w h' kw)"
  by (simp add: TitleSlide_def Let_def split: option.splits)

lemma TextSlide_status: "fst (TextSlide w h kw) = fst (TextSlide w h' kw)"
  by (simp add: TextSlide_def Let_def split: option.splits)

lemma ListSlide_status: "fst (ListSlide w h kw) = fst (ListSlide w h' kw)"
  by (simp add: ListSlide_def Let_def split: option.splits sum.splits prod.splits)

lemma PictureSlide_status: "fst (PictureSlide w h kw) = fst (PictureSlide w h' kw)"
  by (simp add: PictureSlide_def Let_def split: option.splits)

lemma PlotSlide_status: "fst (PlotSlide w h kw) = fst (PlotSlide w h' kw)"
  by (simp add: PlotSlide_def Let_def split: option.splits sum.splits)

lemma from_dict_status: "fst (from_dict w h d) = fst (from_dict w h' d)"
  using TitleSlide_status[of w h _ h'] TextSlide_status[of w h _ h'] ListSlide_status[of w h _ h']
    PictureSlide_status[of w h _ h'] PlotSlide_status[of w h _ h']
  by (simp add: from_dict_def Let_def split_beta split: sum.splits)

lemma slide_handlers_not_Completed: "fst (slide_handlers n e lg) \<noteq> Completed"
  by (simp add: slide_handlers_def)

lemma slide_loop_Completed:
  "slide_loop w i specs h lg = (Completed, h', lg') \<Longrightarrow>
   \<exists>new. slides h' = slides h @ new \<and> length new = length specs \<and>
     lg' = lg @ map (\<lambda>k. INFO (SlideGenerated k)) [i + 1 ..< i + 1 + length specs] \<and>
     (\<forall>k < length specs. built (specs ! k) (new ! k))"
proof (induction specs arbitrary: i h lg)
  case Nil
  then show ?case by simp
next
  case (Cons sp specs)
  obtain r h1 d1 where fd: "from_dict w h sp = (r, h1, d1)"
    by (cases "from_dict w h sp") auto
  have r: "r = None"
  proof (cases r)
    case (Some e)
    with Cons.prems fd show ?thesis
      using slide_handlers_not_Completed[of "i + 1" e lg]
      by (auto split: prod.splits)
  qed simp
  with Cons.prems fd have
    rest: "slide_loop w (i + 1) specs h1 (lg @ [INFO (SlideGenerated (i + 1))]) = (Completed, h', lg')"
    by simp
  from fd r obtain s where s: "slides h1 = slides h @ [s]" "built sp s"
    using from_dict_ok by blast
  from Cons.IH[OF rest] obtain new where new:
    "slides h' = slides h1 @ new" "length new = length specs"
    "lg' = (lg @ [INFO (SlideGenerated (i + 1))]) @
        map (\<lambda>k. INFO (SlideGenerated k)) [i + 1 + 1 ..< i + 1 + 1 + length specs]"
    "\<forall>k < length specs. built (specs ! k) (new ! k)"
    by blast
  have "\<forall>k < length (sp # specs). built ((sp # specs) ! k) ((s # new) ! k)"
    using s(2) new(4) by (auto simp: nth_Cons split: nat.splits)
  moreover have "lg' = lg @ map (\<lambda>k. INFO (SlideGenerated k)) [i + 1 ..< i + 1 + length (sp # specs)]"
  proof -
    have "[i + 1 ..< i + 1 + length (sp # specs)] = (i + 1) # [i + 1 + 1 ..< i + 1 + 1 + length specs]"
      by (subst upt_rec) simp
    then show ?thesis using new(3) by simp
  qed
  ultimately show ?case
    using s(1) new(1,2) by (intro exI[of _ "s # new"]) simp
qed

lemma slide_loop_valid:
  "\<forall>sp \<in> set specs. fst (from_dict w h0 sp) = None \<Longrightarrow>
   fst (slide_loop w i specs h lg) = Completed"
proof (induction specs arbitrary: i h lg)
  case Nil
  then show ?case by simp
next
  case (Cons sp specs)
  have "fst (from_dict w h sp) = None"
    using Cons.prems from_dict_status[of w h sp h0] by simp
  then obtain h1 d1 where "from_dict w h sp = (None, h1, d1)"
    by (cases "from_dict w h sp") auto
  then show ?case using Cons by simp
qed

lemma generate_loop:
  assumes "load_config w config = Inr data"
    and "py_getitem data ''presentation'' = Inr specs"
    and "py_iter specs = Inr items"
    and "slide_loop w 0 items \<lparr>slides = [], figure = plt p\<rparr> (log p @ [INFO (ConfigLoaded config)]) = (out, h, lg)"
  shows "generate w p config output =
     (case out of
        Completed \<Rightarrow> save_presentation w output (slides h) (p\<lparr>log := lg, plt := figure h\<rparr>)
      | Returned \<Rightarrow> (None, p\<lparr>log := lg, plt := figure h\<rparr>)
      | Raised e \<Rightarrow> (Some e, p\<lparr>log := lg, plt := figure h\<rparr>))"
  using assms by (simp add: generate_def split: outcome.splits)

lemma slide_loop_append:
  "slide_loop w i pre h lg = (Completed, h1, lg1) \<Longrightarrow>
   slide_loop w i (pre @ rest) h lg = slide_loop w (i + length pre) rest h1 lg1"
proof (induction pre arbitrary: i h lg)
  case Nil
  then show ?case by simp
next
  case (Cons sp pre)
  obtain r h2 d2 where fd: "from_dict w h sp = (r, h2, d2)"
    by (cases "from_dict w h sp") auto
  have r: "r = None"
  proof (cases r)
    case (Some e)
    with Cons.prems fd show ?thesis
      using slide_handlers_not_Completed[of "i + 1" e lg]
      by (auto split: prod.splits)
  qed simp
  with Cons.prems fd have
    "slide_loop w (i + 1) pre h2 (lg @ [INFO (SlideGenerated (i + 1))]) = (Completed, h1, lg1)"
    by simp
  from Cons.IH[OF this, of ] fd r show ?case by simp
qed

lemma generate_slide_raises:
  assumes "load_config w config = Inr data"
    and "py_getitem data ''presentation'' = Inr (JList (pre @ sp # post))"
    and "slide_loop w 0 pre \<lparr>slides = [], figure = plt p\<rparr> (log p @ [INFO (ConfigLoaded config)]) =
           (Completed, h1, lg1)"
    and "from_dict w h1 sp = (Some e, h2, d2)"
  shows "generate w p config output =
     (case slide_handlers (length pre + 1) e lg1 of
        (Raised e', lg) \<Rightarrow> (Some e', p\<lparr>log := lg, plt := figure h2\<rparr>)
      | (out, lg) \<Rightarrow> (None, p\<lparr>log := lg, plt := figure h2\<rparr>))"
proof -
  have "slide_loop w 0 (pre @ sp # post) \<lparr>slides = [], figure = plt p\<rparr> (log p @ [INFO (ConfigLoaded config)]) =
      (let (out, lg') = slide_handlers (length pre + 1) e lg1 in (out, h2, lg'))"
    using slide_loop_append[OF assms(3), of "sp # post"] assms(4) by simp
  then show ?thesis
    using assms(1,2) slide_handlers_not_Completed[of "length pre + 1" e lg1]
    by (auto simp: generate_def split: prod.splits outcome.splits)
qed

lemma slide_loop_fails:
  "sp \<in> set specs \<Longrightarrow> fst (from_dict w h0 sp) \<noteq> None \<Longrightarrow>
   fst (slide_loop w i specs h lg) \<noteq> Completed"
proof (induction specs arbitrary: i h lg)
  case Nil
  then show ?case by simp
next
  case (Cons a specs)
  obtain r h2 d2 where fd: "from_dict w h a = (r, h2, d2)"
    by (cases "from_dict w h a") auto
  show ?case
  proof (cases r)
    case (Some e)
    then show ?thesis using fd slide_handlers_not_Completed[of "i + 1" e lg]
      by (auto split: prod.splits)
  next
    case None
    then have "a \<noteq> sp" using fd Cons.prems(2) from_dict_status[of w h a h0] by auto
    then have "sp \<in> set specs" using Cons.prems(1) by simp
    from Cons.IH[OF this Cons.prems(2)] show ?thesis using fd None by simp
  qed
qed

lemma generate_no_output:
  assumes "load_config w config = Inr data"
    and "py_getitem data ''presentation'' = Inr (JList specs)"
    and "fst (slide_loop w 0 specs \<lparr>slides = [], figure = plt p\<rparr> (log p @ [INFO (ConfigLoaded config)])) \<noteq> Completed"
  shows "files (snd (generate w p config output)) = files p"
  using assms by (auto simp: generate_def split: prod.splits outcome.splits)


lemma from_dict_unknown_type:
  "map_of kv ''type'' = Some t \<Longrightarrow> t \<notin> JStr ` {''title'', ''text'', ''list'', ''picture'', ''plot''} \<Longrightarrow>
   from_dict w h (JDict kv) =
     (Some (Exn ValueError (InvalidSlideType t)), h, JDict (filter (\<lambda>(k, v). k \<noteq> ''type'') kv))"
  by (auto simp: from_dict_def)

lemma add_paragraphs_entries:
  assumes "list_all2 (\<lambda>item (l, t). py_getitem item ''level'' = Inr l \<and> py_getitem item ''text'' = Inr t)
             items entries"
    and "\<forall>(l, t) \<in> set entries. set_level w l = None"
  shows "add_paragraphs w items tf = (None, tf @ map (\<lambda>(l, t). (t, l)) entries)"
  using assms
proof (induction items entries arbitrary: tf rule: list_all2_induct)
  case Nil
  then show ?case by simp
next
  case (Cons item e items entries)
  then show ?case by (cases e) auto
qed

lemma bind_kwargs_ok:
  "fst ` set kv \<subseteq> insert ''type'' (set ps) \<Longrightarrow>
   bind_kwargs ps (filter (\<lambda>(k, v). k \<noteq> ''type'') kv) = None"
proof -
  assume "fst ` set kv \<subseteq> insert ''type'' (set ps)"
  then have "filter (\<lambda>(k, v). k \<notin> set ps) (filter (\<lambda>(k, v). k \<noteq> ''type'') kv) = []"
    by (auto simp: filter_empty_conv)
  then show ?thesis by (simp add: bind_kwargs_def)
qed

lemma OSError_only:
  "isinstance e OSError \<Longrightarrow>
   \<not> isinstance e TypeCheckError \<and> \<not> isinstance e ValueError \<and> \<not> isinstance e KeyError"
  by (cases e; cases "exc_class_of e") (auto simp: isinstance_def)

lemma from_dict_plot:
  assumes "map_of kv ''type'' = Some (JStr ''plot'')"
    and "fst ` set kv \<subseteq> {''type'', ''title'', ''content'', ''configuration''}"
    and "check_type w (kwarg kv ''title'' (JStr '''')) TStr = None"
    and "check_type w (kwarg kv ''content'' (JStr '''')) TStr = None"
    and "check_type w (kwarg kv ''configuration'' (JDict [])) TDict = None"
  shows "fst (from_dict w h (JDict kv)) =
     (case loadtxt w (kwarg kv ''content'' (JStr '''')) of
        Inl e \<Rightarrow> Some e
      | Inr a \<Rightarrow>
          (case column a 0 of
             Inl e \<Rightarrow> Some e
           | Inr xs \<Rightarrow>
               (case column a 1 of
                  Inl e \<Rightarrow> Some e
                | Inr ys \<Rightarrow>
                    (case py_getitem (kwarg kv ''configuration'' (JDict [])) ''x-label'' of
                       Inl e \<Rightarrow> Some e
                     | Inr xl \<Rightarrow>
                         (case py_getitem (kwarg kv ''configuration'' (JDict [])) ''y-label'' of
                            Inl e \<Rightarrow> Some e
                          | Inr yl \<Rightarrow> None)))))"
proof -
  let ?kw = "filter (\<lambda>(k, v). k \<noteq> ''type'') kv"
  have bind: "bind_kwargs [''title'', ''content'', ''configuration''] ?kw = None"
    using assms(2) by (intro bind_kwargs_ok) auto
  have kw: "kwarg ?kw ''title'' (JStr '''') = kwarg kv ''title'' (JStr '''')"
    "kwarg ?kw ''content'' (JStr '''') = kwarg kv ''content'' (JStr '''')"
    "kwarg ?kw ''configuration'' (JDict []) = kwarg kv ''configuration'' (JDict [])"
    by (simp_all add: kwarg_filter)
  have "fst (from_dict w h (JDict kv)) = fst (PlotSlide w h ?kw)"
    using assms(1) by (simp add: from_dict_def split_beta Let_def)
  also have "\<dots> =
     (case loadtxt w (kwarg kv ''content'' (JStr [])) of
        Inl e \<Rightarrow> Some e
      | Inr a \<Rightarrow>
          (case column a 0 of
             Inl e \<Rightarrow> Some e
           | Inr xs \<Rightarrow>
               (case column a 1 of
                  Inl e \<Rightarrow> Some e
                | Inr ys \<Rightarrow>
                    (case py_getitem (kwarg kv ''configuration'' (JDict [])) ''x-label'' of
                       Inl e \<Rightarrow> Some e
                     | Inr xl \<Rightarrow>
                         (case py_getitem (kwarg kv ''configuration'' (JDict [])) ''y-label'' of
                            Inl e \<Rightarrow> Some e
                          | Inr yl \<Rightarrow> None)))))"
    using bind kw assms(3-5) by (auto simp add: PlotSlide_def Let_def split: sum.splits)
  finally show ?thesis by simp
qed

lemma generate_slide_raises_caught:
  assumes "load_config w config = Inr data"
    and "py_getitem data ''presentation'' = Inr (JList (pre @ sp # post))"
    and "slide_loop w 0 pre \<lparr>slides = [], figure = plt p\<rparr> (log p @ [INFO (ConfigLoaded config)]) =
           (Completed, h1, lg1)"
    and "fst (from_dict w h1 sp) = Some e"
    and "slide_handlers (length pre + 1) e lg1 = (Returned, lg)"
  shows "fst (generate w p config output) = None \<and>
         log (snd (generate w p config output)) = lg \<and>
         files (snd (generate w p config output)) = files p"
proof -
  obtain h2 d2 where "from_dict w h1 sp = (Some e, h2, d2)"
    using assms(4) by (cases "from_dict w h1 sp") auto
  from generate_slide_raises[OF assms(1,2,3) this, of "output"] assms(5)
  show ?thesis by simp
qed

lemma TitleSlide_figure: "figure (snd (TitleSlide w h kw)) = figure h"
  by (simp add: TitleSlide_def heap_defs Let_def split: option.splits)

lemma TextSlide_figure: "figure (snd (TextSlide w h kw)) = figure h"
  by (simp add: TextSlide_def heap_defs Let_def split: option.splits)

lemma ListSlide_figure: "figure (snd (ListSlide w h kw)) = figure h"
  by (simp add: ListSlide_def heap_defs Let_def split: option.splits sum.splits prod.splits)

lemma PictureSlide_figure: "figure (snd (PictureSlide w h kw)) = figure h"
  by (simp add: PictureSlide_def heap_defs Let_def split: option.splits)

lemma PlotSlide_lines:
  "lines (figure (snd (PlotSlide w h kw))) =
   lines (figure h) @ lines (figure (snd (PlotSlide w \<lparr>slides = [], figure = empty_figure\<rparr> kw)))"
  by (simp add: PlotSlide_def heap_defs empty_figure_def Let_def split: option.splits sum.splits)

lemma from_dict_lines:
  "lines (figure (fst (snd (from_dict w h d)))) = lines (figure h) @ plotted w d"
  using PlotSlide_lines[of w h]
  by (simp add: plotted_def from_dict_def Let_def split_beta TitleSlide_figure TextSlide_figure
      ListSlide_figure PictureSlide_figure empty_figure_def split: sum.splits)

lemma from_dict_ok_plot:
  assumes "from_dict w h (JDict kv) = (None, h', d')"
    and "map_of kv ''type'' = Some (JStr ''plot'')"
  shows "\<exists>s a xs ys.
     slides h' = slides h @ [s] \<and> shapes s = [PictureStream (figure h') 1 2 5] \<and>
     loadtxt w (kwarg kv ''content'' (JStr '''')) = Inr a \<and>
     column a 0 = Inr xs \<and> column a 1 = Inr ys \<and> plotted w (JDict kv) = [(xs, ys)]"
proof -
  let ?kw = "filter (\<lambda>(k, v). k \<noteq> ''type'') kv"
  have ps: "PlotSlide w h ?kw = (None, h')"
    using assms by (simp add: from_dict_def Let_def split: prod.splits)
  from PlotSlide_ok[OF ps] obtain a xs ys where ok:
    "loadtxt w (kwarg ?kw ''content'' (JStr '''')) = Inr a"
    "column a 0 = Inr xs" "column a 1 = Inr ys"
    "lines (figure h') = lines (figure h) @ [(xs, ys)]"
    "slides h' = slides h @
          [\<lparr>layout = 5, title_text = Some (kwarg ?kw ''title'' (JStr '''')),
            placeholder1_text = None, paragraphs = [],
            shapes = [PictureStream (figure h') 1 2 5]\<rparr>]"
    by auto
  have "lines (figure h') = lines (figure h) @ plotted w (JDict kv)"
    using from_dict_lines[of w h "JDict kv"] assms(1) by simp
  with ok(4) have "plotted w (JDict kv) = [(xs, ys)]" by simp
  with ok show ?thesis by (auto simp: kwarg_filter)
qed

lemma slide_loop_figures:
  "slide_loop w i specs h lg = (Completed, h', lg') \<Longrightarrow>
   \<exists>ss. slides h' = slides h @ ss \<and> length ss = length specs \<and>
     lines (figure h') = lines (figure h) @ concat (map (plotted w) specs) \<and>
     (\<forall>k < length specs. \<forall>kv. specs ! k = JDict kv \<and> map_of kv ''type'' = Some (JStr ''plot'') \<longrightarrow>
        (\<exists>img. shapes (ss ! k) = [PictureStream img 1 2 5] \<and>
           lines img = lines (figure h) @ concat (map (plotted w) (take (Suc k) specs))))"
proof (induction specs arbitrary: i h lg)
  case Nil
  then show ?case by simp
next
  case (Cons sp specs)
  obtain r h1 d1 where fd: "from_dict w h sp = (r, h1, d1)"
    by (cases "from_dict w h sp") auto
  have r: "r = None"
  proof (cases r)
    case (Some e)
    with Cons.prems fd show ?thesis
      using slide_handlers_not_Completed[of "i + 1" e lg]
      by (auto split: prod.splits)
  qed simp
  with Cons.prems fd have
    rest: "slide_loop w (i + 1) specs h1 (lg @ [INFO (SlideGenerated (i + 1))]) = (Completed, h', lg')"
    by simp
  from fd r obtain s where s: "slides h1 = slides h @ [s]"
    using from_dict_ok by blast
  have l1: "lines (figure h1) = lines (figure h) @ plotted w sp"
    using from_dict_lines[of w h sp] fd by simp
  from Cons.IH[OF rest] obtain ss where ss:
    "slides h' = slides h1 @ ss" "length ss = length specs"
    "lines (figure h') = lines (figure h1) @ concat (map (plotted w) specs)"
    "\<forall>k < length specs. \<forall>kv. specs ! k = JDict kv \<and> map_of kv ''type'' = Some (JStr ''plot'') \<longrightarrow>
        (\<exists>img. shapes (ss ! k) = [PictureStream img 1 2 5] \<and>
           lines img = lines (figure h1) @ concat (map (plotted w) (take (Suc k) specs)))"
    by blast
  have "\<exists>img. shapes ((s # ss) ! k) = [PictureStream img 1 2 5] \<and>
           lines img = lines (figure h) @ concat (map (plotted w) (take (Suc k) (sp # specs)))"
    if k: "k < length (sp # specs)" and kv: "(sp # specs) ! k = JDict kv"
      "map_of kv ''type'' = Some (JStr ''plot'')" for k kv
  proof (cases k)
    case 0
    with kv have "sp = JDict kv" by simp
    with from_dict_ok_plot[of w h kv h1 d1] fd r kv(2) s
    have "shapes s = [PictureStream (figure h1) 1 2 5]" by auto
    with 0 l1 show ?thesis by simp
  next
    case (Suc k')
    with k kv ss(4) obtain img where "shapes (ss ! k') = [PictureStream img 1 2 5]"
      "lines img = lines (figure h1) @ concat (map (plotted w) (take (Suc k') specs))"
      by auto
    with Suc l1 show ?thesis by simp
  qed
  then show ?case
    using s ss(1,2,3) l1 by (intro exI[of _ "s # ss"]) simp
qed

lemma slide_loop_all_valid:
  "slide_loop w i specs h lg = (Completed, h', lg') \<Longrightarrow> sp \<in> set specs \<Longrightarrow>
   fst (from_dict w h0 sp) = None"
  using slide_loop_fails[of sp specs w h0 i h lg] by (cases "fst (from_dict w h0 sp)") auto

lemmas example_defs = example_world_def fresh_process_def empty_figure_def title_spec_def
  text_spec_def list_spec_def picture_spec_def plot_spec_def config_of_def

lemmas eval_defs = generate_def load_config_def Config_def ListElements_def from_dict_def
  ctor_defs heap_defs bind_kwargs_def kwarg_def save_presentation_def slide_handlers_def
  load_handlers_def isinstance_def

lemmas shape_defs = valid_slide_def resources_def text_field_def required_text_def
  list_element_def level_taken_def

lemmas cli_defs = App_init_def App_def def_def command_def default_command_def generate_doc_def
  App_doc_def CommandlineInterface_init_def parse_doc_def add_argument_def module_getattr_def
  hyphenate_def underscore_def module_names_def



lemma text_field_kwarg:
  "text_field kv k \<Longrightarrow> \<exists>s. kwarg kv k (JStr d) = JStr s"
  by (auto simp: text_field_def kwarg_def split: option.splits json.splits)

lemma text_field_checked:
  "accepts_instances w \<Longrightarrow> text_field kv k \<Longrightarrow> check_type w (kwarg kv k (JStr d)) TStr = None"
  using text_field_kwarg[of kv k d] by (auto simp: accepts_instances_def)

lemma list_element_conforms: "list_element v \<Longrightarrow> conforms v ListElements"
  by (auto simp: list_element_def required_text_def ListElements_def
      split: json.splits option.splits)

lemma list_element_items:
  "list_element v \<Longrightarrow> \<exists>t l. py_getitem v ''text'' = Inr t \<and> py_getitem v ''level'' = Inr l"
  by (auto simp: list_element_def required_text_def split: json.splits option.splits)

lemma add_paragraphs_valid:
  "list_all list_element items \<Longrightarrow> list_all (level_taken w) items \<Longrightarrow>
   fst (add_paragraphs w items tf) = None"
proof (induction items arbitrary: tf)
  case Nil
  then show ?case by simp
next
  case (Cons v items)
  from Cons.prems(1) obtain t l where
    tl: "py_getitem v ''text'' = Inr t" "py_getitem v ''level'' = Inr l"
    using list_element_items[of v] by auto
  with Cons.prems(2) have "set_level w l = None"
    by (simp add: level_taken_def)
  with tl Cons show ?case by simp
qed

lemma valid_slide_cases:
  assumes "valid_slide spec"
  obtains kv ty where "spec = JDict kv" "map_of kv ''type'' = Some (JStr ty)"
    "ty \<in> {''title'', ''text'', ''list'', ''picture'', ''plot''}"
  using assms by (auto simp: valid_slide_def split: json.splits option.splits if_splits)

lemma TitleSlide_valid:
  assumes "accepts_instances w" and "valid_slide (JDict kv)"
    and "map_of kv ''type'' = Some (JStr ''title'')"
  shows "fst (TitleSlide w h (filter (\<lambda>(k, v). k \<noteq> ''type'') kv)) = None"
proof -
  from assms(2,3) have f: "fst ` set kv \<subseteq> insert ''type'' (set [''title'', ''content''])"
    and t: "text_field kv ''title''" "text_field kv ''content''"
    by (auto simp: valid_slide_def)
  from bind_kwargs_ok[OF f] text_field_checked[OF assms(1) t(1), of "''''"]
    text_field_checked[OF assms(1) t(2), of "''''"]
  show ?thesis by (simp add: TitleSlide_def kwarg_filter)
qed

lemma TextSlide_valid:
  assumes "accepts_instances w" and "valid_slide (JDict kv)"
    and "map_of kv ''type'' = Some (JStr ''text'')"
  shows "fst (TextSlide w h (filter (\<lambda>(k, v). k \<noteq> ''type'') kv)) = None"
proof -
  from assms(2,3) have f: "fst ` set kv \<subseteq> insert ''type'' (set [''title'', ''content''])"
    and t: "text_field kv ''title''" "text_field kv ''content''"
    by (auto simp: valid_slide_def)
  from bind_kwargs_ok[OF f] text_field_checked[OF assms(1) t(1), of "''''"]
    text_field_checked[OF assms(1) t(2), of "''''"]
  show ?thesis by (simp add: TextSlide_def kwarg_filter)
qed

lemma PictureSlide_valid:
  assumes "accepts_instances w" and "valid_slide (JDict kv)" and "resources w (JDict kv)"
    and "map_of kv ''type'' = Some (JStr ''picture'')"
  shows "fst (PictureSlide w h (filter (\<lambda>(k, v). k \<noteq> ''type'') kv)) = None"
proof -
  from assms(2,4) have f: "fst ` set kv \<subseteq> insert ''type'' (set [''title'', ''content''])"
    and t: "text_field kv ''title''" "text_field kv ''content''"
    by (auto simp: valid_slide_def)
  from assms(3,4) have "open_picture w (kwarg kv ''content'' (JStr '''')) = None"
    by (simp add: resources_def)
  with bind_kwargs_ok[OF f] text_field_checked[OF assms(1) t(1), of "''''"]
    text_field_checked[OF assms(1) t(2), of "''''"]
  show ?thesis by (simp add: PictureSlide_def kwarg_filter Let_def)
qed

lemma ListSlide_valid:
  assumes "accepts_instances w" and "valid_slide (JDict kv)" and "resources w (JDict kv)"
    and "map_of kv ''type'' = Some (JStr ''list'')"
  shows "fst (ListSlide w h (filter (\<lambda>(k, v). k \<noteq> ''type'') kv)) = None"
proof -
  from assms(2,4) have f: "fst ` set kv \<subseteq> insert ''type'' (set [''title'', ''content''])"
    and t: "text_field kv ''title''"
    by (auto simp: valid_slide_def)
  from assms(2,4) obtain items where items:
    "kwarg kv ''content'' (JList []) = JList items" "list_all list_element items"
    by (auto simp: valid_slide_def kwarg_def split: option.splits json.splits)
  from items(2) have "list_all (\<lambda>x. conforms x ListElements) items"
    by (induction items) (auto simp: list_element_conforms)
  with items(1) assms(1) have c: "check_type w (kwarg kv ''content'' (JList [])) (TList ListElements) = None"
    by (simp add: accepts_instances_def)
  from assms(3,4) items(1) have "list_all (level_taken w) items"
    by (simp add: resources_def)
  from add_paragraphs_valid[OF items(2) this, of "[]"]
  have "fst (add_paragraphs w items []) = None" .
  with bind_kwargs_ok[OF f] text_field_checked[OF assms(1) t, of "''''"] c items(1)
  show ?thesis by (simp add: ListSlide_def kwarg_filter Let_def split_beta)
qed

lemma PlotSlide_valid:
  assumes "accepts_instances w" and "valid_slide (JDict kv)" and "resources w (JDict kv)"
    and "map_of kv ''type'' = Some (JStr ''plot'')"
  shows "fst (PlotSlide w h (filter (\<lambda>(k, v). k \<noteq> ''type'') kv)) = None"
proof -
  from assms(2,4) have
    f: "fst ` set kv \<subseteq> insert ''type'' (set [''title'', ''content'', ''configuration''])"
    and t: "text_field kv ''title''" "text_field kv ''content''"
    by (auto simp: valid_slide_def)
  from assms(2,4) obtain labels where labels:
    "kwarg kv ''configuration'' (JDict []) = JDict labels"
    "required_text labels ''x-label''" "required_text labels ''y-label''"
    by (auto simp: valid_slide_def kwarg_def split: option.splits json.splits)
  from labels(1) assms(1) have c: "check_type w (kwarg kv ''configuration'' (JDict [])) TDict = None"
    by (simp add: accepts_instances_def)
  from labels(2,3) obtain xl yl where l:
    "py_getitem (JDict labels) ''x-label'' = Inr xl" "py_getitem (JDict labels) ''y-label'' = Inr yl"
    by (auto simp: required_text_def split: option.splits)
  from assms(3,4) obtain cols where cols:
    "loadtxt w (kwarg kv ''content'' (JStr '''')) = Inr (Array2 cols)" "2 \<le> length cols"
    by (auto simp: resources_def split: sum.splits ndarray.splits)
  from cols(2) have col: "column (Array2 cols) 0 = Inr (cols ! 0)" "column (Array2 cols) 1 = Inr (cols ! 1)"
    by auto
  from bind_kwargs_ok[OF f] text_field_checked[OF assms(1) t(1), of "''''"]
    text_field_checked[OF assms(1) t(2), of "''''"] c labels(1) l cols(1) col
  show ?thesis by (simp add: PlotSlide_def kwarg_filter Let_def)
qed

lemma valid_slide_builds:
  assumes "accepts_instances w" and "valid_slide spec" and "resources w spec"
  shows "fst (from_dict w h spec) = None"
proof -
  from assms(2) obtain kv ty where spec: "spec = JDict kv" "map_of kv ''type'' = Some (JStr ty)"
    and ty: "ty \<in> {''title'', ''text'', ''list'', ''picture'', ''plot''}"
    by (rule valid_slide_cases)
  let ?kw = "filter (\<lambda>(k, v). k \<noteq> ''type'') kv"
  from ty consider "ty = ''title''" | "ty = ''text''" | "ty = ''list''" | "ty = ''picture''"
    | "ty = ''plot''"
    by auto
  then show ?thesis
  proof cases
    case 1
    with TitleSlide_valid[OF assms(1) assms(2)[unfolded spec], of h] spec show ?thesis
      by (simp add: from_dict_def split_beta Let_def)
  next
    case 2
    with TextSlide_valid[OF assms(1) assms(2)[unfolded spec], of h] spec show ?thesis
      by (simp add: from_dict_def split_beta Let_def)
  next
    case 3
    with ListSlide_valid[OF assms(1) assms(2)[unfolded spec] assms(3)[unfolded spec], of h] spec
    show ?thesis
      by (simp add: from_dict_def split_beta Let_def)
  next
    case 4
    with PictureSlide_valid[OF assms(1) assms(2)[unfolded spec] assms(3)[unfolded spec], of h] spec
    show ?thesis
      by (simp add: from_dict_def split_beta Let_def)
  next
    case 5
    with PlotSlide_valid[OF assms(1) assms(2)[unfolded spec] assms(3)[unfolded spec], of h] spec
    show ?thesis
      by (simp add: from_dict_def split_beta Let_def)
  qed
qed

lemma valid_config_loads:
  assumes "read_json w config = Inr (config_of specs)"
    and "accepts_instances w"
    and "\<forall>sp \<in> set specs. valid_slide sp \<and> resources w sp"
  shows "load_config w config = Inr (config_of specs)"
proof -
  have "conforms x TDict" if "x \<in> set specs" for x
  proof -
    from assms(3) that have "valid_slide x" by simp
    then show ?thesis by (rule valid_slide_cases) simp
  qed
  then have "list_all (\<lambda>x. conforms x TDict) specs"
    by (simp add: list_all_iff)
  then have "conforms (config_of specs) Config"
    by (simp add: config_of_def Config_def)
  with assms(2) have "check_type w (config_of specs) Config = None"
    by (simp add: accepts_instances_def)
  with assms(1) show ?thesis by (simp add: load_config_def)
qed

section \<open>The claims\<close>

text \<open>
  C1. When the configuration file holds an object whose only field \<open>presentation\<close> is a
  list of \<open>N\<close> slide specifications, each of them valid by the data model (\<open>valid_slide\<close>)
  with the files it names at hand (\<open>resources\<close>), and typeguard raises nothing for
  values of the annotated types, then \<open>generate\<close> builds a document of exactly \<open>N\<close>
  slides; the \<open>k\<close>-th slide has the title of the \<open>k\<close>-th specification and the layout of
  its type (layout 0 for \<open>title\<close>, layout 1 for \<open>list\<close>, layout 5 for \<open>text\<close>, \<open>picture\<close>
  and \<open>plot\<close>); the log holds one record for each slide, in order; and \<open>generate\<close> ends
  by saving that document: when the library writes it, the file at the output path is
  the document.
\<close>

theorem generate_builds_all_slides:
  assumes "read_json w config = Inr (config_of specs)"
    and "accepts_instances w"
    and "\<forall>sp \<in> set specs. valid_slide sp \<and> resources w sp"
  shows "\<exists>doc fig.
     length doc = length specs \<and>
     (\<forall>k < length specs. \<exists>kv t.
         specs ! k = JDict kv \<and> map_of kv ''type'' = Some (JStr t) \<and>
         t \<in> {''title'', ''text'', ''list'', ''picture'', ''plot''} \<and>
         layout (doc ! k) = (if t = ''title'' then 0 else if t = ''list'' then 1 else 5) \<and>
         title_text (doc ! k) = Some (kwarg kv ''title'' (JStr ''''))) \<and>
     generate w p config output =
       save_presentation w output doc
         (p\<lparr>log := log p @ INFO (ConfigLoaded config) #
                  map (\<lambda>k. INFO (SlideGenerated k)) [1 ..< length specs + 1],
            plt := fig\<rparr>) \<and>
     (save w output doc = None \<longrightarrow>
        fst (generate w p config output) = None \<and>
        files (snd (generate w p config output)) output = Some doc)"
proof -
  let ?h0 = "\<lparr>slides = [], figure = plt p\<rparr>"
  let ?lg0 = "log p @ [INFO (ConfigLoaded config)]"
  note load = valid_config_loads[OF assms]
  have pres: "py_getitem (config_of specs) ''presentation'' = Inr (JList specs)"
    by (simp add: config_of_def)
  obtain out h lg where loop: "slide_loop w 0 specs ?h0 ?lg0 = (out, h, lg)"
    by (cases "slide_loop w 0 specs ?h0 ?lg0") auto
  have "\<forall>sp \<in> set specs. fst (from_dict w ?h0 sp) = None"
    using assms(2,3) valid_slide_builds by blast
  then have "fst (slide_loop w 0 specs ?h0 ?lg0) = Completed"
    by (rule slide_loop_valid)
  with loop have out: "out = Completed" by simp
  from slide_loop_Completed[OF loop[unfolded out]] obtain new where new:
    "slides h = new" "length new = length specs"
    "lg = ?lg0 @ map (\<lambda>k. INFO (SlideGenerated k)) [0 + 1 ..< 0 + 1 + length specs]"
    "\<forall>k < length specs. built (specs ! k) (new ! k)"
    by auto
  have gen: "generate w p config output =
      save_presentation w output (slides h) (p\<lparr>log := lg, plt := figure h\<rparr>)"
    using generate_loop[OF load pres _ loop, of "output"] out by simp
  have lg: "lg = log p @ INFO (ConfigLoaded config) #
                  map (\<lambda>k. INFO (SlideGenerated k)) [1 ..< length specs + 1]"
    using new(3) by simp
  have saved: "save w output (slides h) = None \<longrightarrow>
        fst (generate w p config output) = None \<and>
        files (snd (generate w p config output)) output = Some (slides h)"
    unfolding gen by (simp add: save_presentation_def)
  show ?thesis
    apply (rule exI[of _ "slides h"], rule exI[of _ "figure h"])
    using new(1,2,4) gen lg saved unfolding built_def by auto
qed

theorem generate_builds_all_slides_witness:
  "read_json
     (example_world [(''report.json'',
        config_of [title_spec, text_spec, list_spec, picture_spec, plot_spec ''sample.dat''])])
     ''report.json'' =
     Inr (config_of [title_spec, text_spec, list_spec, picture_spec, plot_spec ''sample.dat'']) \<and>
   list_all valid_slide [title_spec, text_spec, list_spec, picture_spec, plot_spec ''sample.dat''] \<and>
   list_all
     (resources (example_world [(''report.json'',
        config_of [title_spec, text_spec, list_spec, picture_spec, plot_spec ''sample.dat''])]))
     [title_spec, text_spec, list_spec, picture_spec, plot_spec ''sample.dat''] \<and>
   (\<exists>doc. map layout doc = [0, 5, 1, 5, 5] \<and>
      files (snd (generate
        (example_world [(''report.json'',
           config_of [title_spec, text_spec, list_spec, picture_spec, plot_spec ''sample.dat''])])
        fresh_process ''report.json'' ''report.pptx'')) ''report.pptx'' = Some doc)"
proof -
  let ?specs = "[title_spec, text_spec, list_spec, picture_spec, plot_spec ''sample.dat'']"
  let ?w = "example_world [(''report.json'', config_of ?specs)]"
  have a: "read_json ?w ''report.json'' = Inr (config_of ?specs)"
    by (simp add: example_world_def)
  have b: "accepts_instances ?w"
    by (simp add: accepts_instances_def example_world_def)
  have v: "list_all valid_slide ?specs"
    by (simp add: example_defs shape_defs)
  have r: "list_all (resources ?w) ?specs"
    by (simp add: example_defs shape_defs kwarg_def)
  from v r have c: "\<forall>sp \<in> set ?specs. valid_slide sp \<and> resources ?w sp"
    by (simp only: list_all_iff) blast
  have s: "save ?w ''report.pptx'' doc = None" for doc
    by (simp add: example_world_def)
  from generate_builds_all_slides[OF a b c, of fresh_process "''report.pptx''"]
  obtain doc where doc: "length doc = length ?specs"
    and lay: "\<forall>k < length ?specs. \<exists>kv t.
         ?specs ! k = JDict kv \<and> map_of kv ''type'' = Some (JStr t) \<and>
         t \<in> {''title'', ''text'', ''list'', ''picture'', ''plot''} \<and>
         layout (doc ! k) = (if t = ''title'' then 0 else if t = ''list'' then 1 else 5) \<and>
         title_text (doc ! k) = Some (kwarg kv ''title'' (JStr ''''))"
    and sv: "save ?w ''report.pptx'' doc = None \<longrightarrow>
      fst (generate ?w fresh_process ''report.json'' ''report.pptx'') = None \<and>
      files (snd (generate ?w fresh_process ''report.json'' ''report.pptx'')) ''report.pptx'' = Some doc"
    by (elim exE conjE)
  from sv s have f:
    "files (snd (generate ?w fresh_process ''report.json'' ''report.pptx'')) ''report.pptx'' = Some doc"
    by simp
  have l0: "layout (doc ! 0) = 0"
    using lay[rule_format, of 0] by (auto simp: title_spec_def)
  have l1: "layout (doc ! 1) = 5"
    using lay[rule_format, of 1] by (auto simp: text_spec_def)
  have l2: "layout (doc ! 2) = 1"
    using lay[rule_format, of 2] by (auto simp: list_spec_def)
  have l3: "layout (doc ! 3) = 5"
    using lay[rule_format, of 3] by (auto simp: picture_spec_def)
  have l4: "layout (doc ! 4) = 5"
    using lay[rule_format, of 4] by (auto simp: plot_spec_def)
  from doc obtain s0 s1 s2 s3 s4 where d: "doc = [s0, s1, s2, s3, s4]"
    by (auto simp: length_Suc_conv eval_nat_numeral)
  with l0 l1 l2 l3 l4 have "map layout doc = [0, 5, 1, 5, 5]"
    by simp
  with f have "\<exists>doc. map layout doc = [0, 5, 1, 5, 5] \<and>
      files (snd (generate ?w fresh_process ''report.json'' ''report.pptx'')) ''report.pptx'' = Some doc"
    by (intro exI[of _ doc] conjI)
  with a v r show ?thesis by (intro conjI)
qed

text \<open>
  C2. A field that the variant's constructor does not accept is a \<open>TypeError\<close> of the
  call, and the slide loop of \<open>generate\<close> has no handler for \<open>TypeError\<close>: on the
  configuration with the single slide \<open>{"type": "title", "subtitle": "S"}\<close> the exception
  leaves \<open>generate\<close>, and the log holds no record about the slide.
\<close>

theorem unexpected_field_escapes:
  "generate
     (example_world [(''report.json'',
        config_of [JDict [(''type'', JStr ''title''), (''subtitle'', JStr ''S'')]])])
     fresh_process ''report.json'' ''report.pptx'' =
   (Some (Exn TypeError (UnexpectedKeyword ''subtitle'')),
    fresh_process\<lparr>log := [INFO (ConfigLoaded ''report.json'')]\<rparr>)"
  by (simp add: example_defs eval_defs)

text \<open>
  C3. A slide specification whose \<open>type\<close> is none of \<open>title\<close>, \<open>text\<close>, \<open>list\<close>,
  \<open>picture\<close>, \<open>plot\<close> makes \<open>Slide.from_dict\<close> raise the \<open>ValueError\<close> that names the
  type, before anything is added to the document. A configuration that holds such a
  specification never writes an output file. And when the specifications before it build,
  \<open>generate\<close> logs the error with the 1-based number of the slide and returns: the
  specifications after it contribute nothing to the result.
\<close>

theorem unknown_slide_type_aborts:
  assumes "load_config w config = Inr data"
    and "py_getitem data ''presentation'' = Inr (JList (pre @ JDict kv # post))"
    and "map_of kv ''type'' = Some t"
    and "t \<notin> JStr ` {''title'', ''text'', ''list'', ''picture'', ''plot''}"
  shows "(\<forall>h. from_dict w h (JDict kv) =
            (Some (Exn ValueError (InvalidSlideType t)), h,
             JDict (filter (\<lambda>(k, v). k \<noteq> ''type'') kv))) \<and>
         files (snd (generate w p config output)) = files p \<and>
         (\<forall>h1 lg1.
            slide_loop w 0 pre \<lparr>slides = [], figure = plt p\<rparr> (log p @ [INFO (ConfigLoaded config)]) =
              (Completed, h1, lg1) \<longrightarrow>
            generate w p config output =
              (None, p\<lparr>log := lg1 @ [ERROR (SlideNotValid (length pre + 1) (InvalidSlideType t))],
                       plt := figure h1\<rparr>))"
proof (intro conjI allI impI)
  fix h
  show "from_dict w h (JDict kv) =
     (Some (Exn ValueError (InvalidSlideType t)), h, JDict (filter (\<lambda>(k, v). k \<noteq> ''type'') kv))"
    using assms(3,4) by (rule from_dict_unknown_type)
next
  have "fst (from_dict w h0 (JDict kv)) \<noteq> None" for h0
    using from_dict_unknown_type[OF assms(3,4)] by simp
  then have "fst (slide_loop w 0 (pre @ JDict kv # post) \<lparr>slides = [], figure = plt p\<rparr>
      (log p @ [INFO (ConfigLoaded config)])) \<noteq> Completed"
    by (intro slide_loop_fails[of "JDict kv"]) simp_all
  then show "files (snd (generate w p config output)) = files p"
    using assms(1,2) by (rule generate_no_output[rotated 2])
next
  fix h1 lg1
  assume loop: "slide_loop w 0 pre \<lparr>slides = [], figure = plt p\<rparr> (log p @ [INFO (ConfigLoaded config)]) =
      (Completed, h1, lg1)"
  have fd: "from_dict w h1 (JDict kv) =
     (Some (Exn ValueError (InvalidSlideType t)), h1, JDict (filter (\<lambda>(k, v). k \<noteq> ''type'') kv))"
    using assms(3,4) by (rule from_dict_unknown_type)
  show "generate w p config output =
      (None, p\<lparr>log := lg1 @ [ERROR (SlideNotValid (length pre + 1) (InvalidSlideType t))],
               plt := figure h1\<rparr>)"
    using generate_slide_raises[OF assms(1,2) loop fd, of "output"]
    by (simp add: slide_handlers_def isinstance_def)
qed

theorem unknown_slide_type_aborts_witness:
  "load_config (example_world [(''report.json'',
       config_of [title_spec, JDict [(''type'', JStr ''chart'')], list_spec])]) ''report.json'' =
     Inr (config_of [title_spec, JDict [(''type'', JStr ''chart'')], list_spec]) \<and>
   JStr ''chart'' \<notin> JStr ` {''title'', ''text'', ''list'', ''picture'', ''plot''} \<and>
   files (snd (generate (example_world [(''report.json'',
       config_of [title_spec, JDict [(''type'', JStr ''chart'')], list_spec])])
       fresh_process ''report.json'' ''report.pptx'')) = files fresh_process \<and>
   log (snd (generate (example_world [(''report.json'',
       config_of [title_spec, JDict [(''type'', JStr ''chart'')], list_spec])])
       fresh_process ''report.json'' ''report.pptx'')) =
     [INFO (ConfigLoaded ''report.json''), INFO (SlideGenerated 1),
      ERROR (SlideNotValid 2 (InvalidSlideType (JStr ''chart'')))]"
proof -
  let ?cfg = "config_of [title_spec, JDict [(''type'', JStr ''chart'')], list_spec]"
  let ?w = "example_world [(''report.json'', ?cfg)]"
  have a: "load_config ?w ''report.json'' = Inr ?cfg"
    by (simp add: example_defs eval_defs)
  have b: "py_getitem ?cfg ''presentation'' = Inr (JList ([title_spec] @ JDict [(''type'', JStr ''chart'')] # [list_spec]))"
    by (simp add: config_of_def)
  have c: "map_of [(''type'', JStr ''chart'')] ''type'' = Some (JStr ''chart'')"
    by simp
  have d: "JStr ''chart'' \<notin> JStr ` {''title'', ''text'', ''list'', ''picture'', ''plot''}"
    by auto
  have loop: "slide_loop ?w 0 [title_spec] \<lparr>slides = [], figure = plt fresh_process\<rparr>
      (log fresh_process @ [INFO (ConfigLoaded ''report.json'')]) =
      (Completed,
       \<lparr>slides = [\<lparr>layout = 0, title_text = Some (JStr ''T''), placeholder1_text = Some (JStr ''C''),
                    paragraphs = [], shapes = []\<rparr>], figure = empty_figure\<rparr>,
       [INFO (ConfigLoaded ''report.json''), INFO (SlideGenerated 1)])"
    by (simp add: example_defs eval_defs)
  from unknown_slide_type_aborts[OF a b c d, of fresh_process "''report.pptx''"] loop
  have "files (snd (generate ?w fresh_process ''report.json'' ''report.pptx'')) = files fresh_process"
    and "generate ?w fresh_process ''report.json'' ''report.pptx'' =
      (None, fresh_process\<lparr>log := [INFO (ConfigLoaded ''report.json''), INFO (SlideGenerated 1)] @
          [ERROR (SlideNotValid (length [title_spec] + 1) (InvalidSlideType (JStr ''chart'')))],
         plt := figure \<lparr>slides = [\<lparr>layout = 0, title_text = Some (JStr ''T''), placeholder1_text = Some (JStr ''C''),
                    paragraphs = [], shapes = []\<rparr>], figure = empty_figure\<rparr>\<rparr>)"
    by blast+
  then show ?thesis using a d by simp
qed



text \<open>
  C5. For a \<open>list\<close> slide with recognised fields whose \<open>content\<close> is a list of
  items, the \<open>i\<close>-th having level \<open>l\<close> and text \<open>t\<close> for the \<open>i\<close>-th entry \<open>(l, t)\<close>,
  and which passes the type check: when python-pptx accepts each level, the slide is
  added with layout 1 and its text frame receives one paragraph for each entry, in the
  order of the entries, with the entry's text and level. The program puts no bound on
  a level.
\<close>

theorem list_slide_paragraphs:
  assumes "map_of kv ''type'' = Some (JStr ''list'')"
    and "fst ` set kv \<subseteq> {''type'', ''title'', ''content''}"
    and "map_of kv ''content'' = Some (JList items)"
    and "list_all2 (\<lambda>item (l, t). py_getitem item ''level'' = Inr (JInt l) \<and>
                                    py_getitem item ''text'' = Inr (JStr t)) items entries"
    and "check_type w (kwarg kv ''title'' (JStr '''')) TStr = None"
    and "check_type w (JList items) (TList ListElements) = None"
    and "\<forall>(l, t) \<in> set entries. set_level w (JInt l) = None"
  shows "from_dict w h (JDict kv) =
     (None,
      h\<lparr>slides := slides h @
           [\<lparr>layout = 1, title_text = Some (kwarg kv ''title'' (JStr '''')),
             placeholder1_text = None,
             paragraphs = map (\<lambda>(l, t). (JStr t, JInt l)) entries, shapes = []\<rparr>]\<rparr>,
      JDict (filter (\<lambda>(k, v). k \<noteq> ''type'') kv))"
proof -
  let ?kw = "filter (\<lambda>(k, v). k \<noteq> ''type'') kv"
  have bind: "bind_kwargs [''title'', ''content''] ?kw = None"
  proof -
    have "filter (\<lambda>(k, v). k \<notin> set [''title'', ''content'']) ?kw = []"
      using assms(2) by (auto simp: filter_empty_conv)
    then show ?thesis by (simp add: bind_kwargs_def)
  qed
  have title: "kwarg ?kw ''title'' (JStr '''') = kwarg kv ''title'' (JStr '''')"
    by (rule kwarg_filter) simp
  have content: "kwarg ?kw ''content'' (JList []) = JList items"
    using assms(3) by (simp add: kwarg_def map_of_filter_other)
  have "list_all2 (\<lambda>item (l, t). py_getitem item ''level'' = Inr l \<and> py_getitem item ''text'' = Inr t)
      items (map (\<lambda>(l, t). (JInt l, JStr t)) entries)"
    using assms(4) by (induction rule: list_all2_induct) auto
  moreover have "\<forall>(l, t) \<in> set (map (\<lambda>(l, t). (JInt l, JStr t)) entries). set_level w l = None"
    using assms(7) by auto
  ultimately have "add_paragraphs w items [] =
      (None, [] @ map (\<lambda>(l, t). (t, l)) (map (\<lambda>(l, t). (JInt l, JStr t)) entries))"
    by (rule add_paragraphs_entries)
  then have paras: "add_paragraphs w items [] = (None, map (\<lambda>(l, t). (JStr t, JInt l)) entries)"
    by (simp add: case_prod_unfold comp_def)
  have "ListSlide w h ?kw =
     (None,
      h\<lparr>slides := slides h @
           [\<lparr>layout = 1, title_text = Some (kwarg kv ''title'' (JStr '''')),
             placeholder1_text = None,
             paragraphs = map (\<lambda>(l, t). (JStr t, JInt l)) entries, shapes = []\<rparr>]\<rparr>)"
    using bind title content paras assms(5,6)
    by (simp add: ListSlide_def heap_defs)
  then show ?thesis
    using assms(1) by (simp add: from_dict_def)
qed

theorem list_slide_paragraphs_witness:
  "map_of [(''type'', JStr ''list''),
           (''content'', JList [JDict [(''level'', JInt 0), (''text'', JStr ''a'')],
                               JDict [(''level'', JInt 1), (''text'', JStr ''b'')]])] ''type'' =
     Some (JStr ''list'') \<and>
   from_dict (example_world []) \<lparr>slides = [], figure = empty_figure\<rparr>
     (JDict [(''type'', JStr ''list''),
             (''content'', JList [JDict [(''level'', JInt 0), (''text'', JStr ''a'')],
                                 JDict [(''level'', JInt 1), (''text'', JStr ''b'')]])]) =
   (None,
    \<lparr>slides = [\<lparr>layout = 1, title_text = Some (JStr ''''), placeholder1_text = None,
                 paragraphs = [(JStr ''a'', JInt 0), (JStr ''b'', JInt 1)], shapes = []\<rparr>],
      figure = empty_figure\<rparr>,
    JDict [(''content'', JList [JDict [(''level'', JInt 0), (''text'', JStr ''a'')],
                               JDict [(''level'', JInt 1), (''text'', JStr ''b'')]])])"
proof -
  let ?items = "[JDict [(''level'', JInt 0), (''text'', JStr ''a'')],
                 JDict [(''level'', JInt 1), (''text'', JStr ''b'')]]"
  let ?kv = "[(''type'', JStr ''list''), (''content'', JList ?items)]"
  let ?w = "example_world []"
  have a: "map_of ?kv ''type'' = Some (JStr ''list'')" by simp
  have b: "fst ` set ?kv \<subseteq> {''type'', ''title'', ''content''}" by simp
  have c: "map_of ?kv ''content'' = Some (JList ?items)" by simp
  have d: "list_all2 (\<lambda>item (l, t). py_getitem item ''level'' = Inr (JInt l) \<and>
                                    py_getitem item ''text'' = Inr (JStr t)) ?items [(0, ''a''), (1, ''b'')]"
    by simp
  have e: "check_type ?w (kwarg ?kv ''title'' (JStr '''')) TStr = None"
    by (simp add: example_world_def kwarg_def)
  have f: "check_type ?w (JList ?items) (TList ListElements) = None"
    by (simp add: example_world_def ListElements_def)
  have g: "\<forall>(l, t) \<in> set [(0::int, ''a''), (1, ''b'')]. set_level ?w (JInt l) = None"
    by (simp add: example_world_def)
  from list_slide_paragraphs[OF a b c d e f g, of "\<lparr>slides = [], figure = empty_figure\<rparr>"]
  show ?thesis by (simp add: kwarg_def)
qed

text \<open>
  C6. For a \<open>plot\<close> slide with recognised fields that passes the type check, built
  after the slides before it: when the data file loads as an array with two columns
  and \<open>configuration\<close> has no \<open>x-label\<close>, or has \<open>x-label\<close> and no \<open>y-label\<close>,
  \<open>generate\<close> logs that the slide is missing the property (the \<open>KeyError\<close> of the
  label) and returns without writing a file; when \<open>loadtxt\<close> raises an \<open>OSError\<close>,
  \<open>generate\<close> logs that the slide's file dependency could not be loaded and returns
  without writing a file, whatever the labels are.

  The counterexample shows what the unamended claim gets wrong: with an unreadable data
  file a missing \<open>x-label\<close> is not reported, since the file is loaded first; a data file
  that \<open>loadtxt\<close> rejects with a \<open>ValueError\<close> is logged as a slide in an invalid
  format; and a data file of one column raises an \<open>IndexError\<close> that leaves \<open>generate\<close>.
\<close>

theorem plot_slide_errors:
  assumes "load_config w config = Inr data"
    and "py_getitem data ''presentation'' = Inr (JList (pre @ JDict kv # post))"
    and "slide_loop w 0 pre \<lparr>slides = [], figure = plt p\<rparr> (log p @ [INFO (ConfigLoaded config)]) =
           (Completed, h1, lg1)"
    and "map_of kv ''type'' = Some (JStr ''plot'')"
    and "fst ` set kv \<subseteq> {''type'', ''title'', ''content'', ''configuration''}"
    and "check_type w (kwarg kv ''title'' (JStr '''')) TStr = None"
    and "check_type w (kwarg kv ''content'' (JStr '''')) TStr = None"
    and "check_type w (kwarg kv ''configuration'' (JDict [])) TDict = None"
  shows
    "(loadtxt w (kwarg kv ''content'' (JStr '''')) = Inr a \<and>
      column a 0 = Inr xs \<and> column a 1 = Inr ys \<and>
      kwarg kv ''configuration'' (JDict []) = JDict c \<and> map_of c ''x-label'' = None \<longrightarrow>
        fst (generate w p config output) = None \<and>
        log (snd (generate w p config output)) =
          lg1 @ [ERROR (SlideMissingProperty (length pre + 1) (MissingKey ''x-label''))] \<and>
        files (snd (generate w p config output)) = files p) \<and>
     (loadtxt w (kwarg kv ''content'' (JStr '''')) = Inr a \<and>
      column a 0 = Inr xs \<and> column a 1 = Inr ys \<and>
      kwarg kv ''configuration'' (JDict []) = JDict c \<and> map_of c ''x-label'' = Some xl \<and>
      map_of c ''y-label'' = None \<longrightarrow>
        fst (generate w p config output) = None \<and>
        log (snd (generate w p config output)) =
          lg1 @ [ERROR (SlideMissingProperty (length pre + 1) (MissingKey ''y-label''))] \<and>
        files (snd (generate w p config output)) = files p) \<and>
     (loadtxt w (kwarg kv ''content'' (JStr '''')) = Inl e \<and> isinstance e OSError \<longrightarrow>
        fst (generate w p config output) = None \<and>
        log (snd (generate w p config output)) =
          lg1 @ [ERROR (SlideFileDependency (length pre + 1) (str_exn e))] \<and>
        files (snd (generate w p config output)) = files p)"
proof -
  note fd = from_dict_plot[OF assms(4-8), of h1]
  note gen = generate_slide_raises_caught[OF assms(1-3)]
  {
    assume a: "loadtxt w (kwarg kv ''content'' (JStr [])) = Inr a \<and>
      column a 0 = Inr xs \<and> column a 1 = Inr ys \<and>
      kwarg kv ''configuration'' (JDict []) = JDict c \<and> map_of c ''x-label'' = None"
    then have "fst (from_dict w h1 (JDict kv)) = Some (Exn KeyError (MissingKey ''x-label''))"
      using fd by simp
    moreover have "slide_handlers (length pre + 1) (Exn KeyError (MissingKey ''x-label'')) lg1 =
        (Returned, lg1 @ [ERROR (SlideMissingProperty (length pre + 1) (MissingKey ''x-label''))])"
      by (simp add: slide_handlers_def isinstance_def)
    ultimately have "fst (generate w p config output) = None \<and>
        log (snd (generate w p config output)) =
          lg1 @ [ERROR (SlideMissingProperty (length pre + 1) (MissingKey ''x-label''))] \<and>
        files (snd (generate w p config output)) = files p"
      by (rule gen)
  }
  note c1 = this
  {
    assume a: "loadtxt w (kwarg kv ''content'' (JStr [])) = Inr a \<and>
      column a 0 = Inr xs \<and> column a 1 = Inr ys \<and>
      kwarg kv ''configuration'' (JDict []) = JDict c \<and> map_of c ''x-label'' = Some xl \<and>
      map_of c ''y-label'' = None"
    then have "fst (from_dict w h1 (JDict kv)) = Some (Exn KeyError (MissingKey ''y-label''))"
      using fd by simp
    moreover have "slide_handlers (length pre + 1) (Exn KeyError (MissingKey ''y-label'')) lg1 =
        (Returned, lg1 @ [ERROR (SlideMissingProperty (length pre + 1) (MissingKey ''y-label''))])"
      by (simp add: slide_handlers_def isinstance_def)
    ultimately have "fst (generate w p config output) = None \<and>
        log (snd (generate w p config output)) =
          lg1 @ [ERROR (SlideMissingProperty (length pre + 1) (MissingKey ''y-label''))] \<and>
        files (snd (generate w p config output)) = files p"
      by (rule gen)
  }
  note c2 = this
  {
    assume a: "loadtxt w (kwarg kv ''content'' (JStr [])) = Inl e \<and> isinstance e OSError"
    then have "fst (from_dict w h1 (JDict kv)) = Some e"
      using fd by simp
    moreover have "slide_handlers (length pre + 1) e lg1 =
        (Returned, lg1 @ [ERROR (SlideFileDependency (length pre + 1) (str_exn e))])"
      using a OSError_only[of e] by (simp add: slide_handlers_def)
    ultimately have "fst (generate w p config output) = None \<and>
        log (snd (generate w p config output)) =
          lg1 @ [ERROR (SlideFileDependency (length pre + 1) (str_exn e))] \<and>
        files (snd (generate w p config output)) = files p"
      by (rule gen)
  }
  note c3 = this
  from c1 c2 c3 show ?thesis by blast
qed

theorem plot_slide_errors_witness:
  "map_of [(''y-label'', JStr ''y'')] ''x-label'' = None \<and>
   log (snd (generate
     (example_world [(''report.json'', config_of [title_spec,
        JDict [(''type'', JStr ''plot''), (''content'', JStr ''sample.dat''),
               (''configuration'', JDict [(''y-label'', JStr ''y'')])]])])
     fresh_process ''report.json'' ''report.pptx'')) =
     [INFO (ConfigLoaded ''report.json''), INFO (SlideGenerated 1),
      ERROR (SlideMissingProperty 2 (MissingKey ''x-label''))] \<and>
   files (snd (generate
     (example_world [(''report.json'', config_of [title_spec,
        JDict [(''type'', JStr ''plot''), (''content'', JStr ''sample.dat''),
               (''configuration'', JDict [(''y-label'', JStr ''y'')])]])])
     fresh_process ''report.json'' ''report.pptx'')) = files fresh_process"
proof -
  let ?kv = "[(''type'', JStr ''plot''), (''content'', JStr ''sample.dat''),
              (''configuration'', JDict [(''y-label'', JStr ''y'')])]"
  let ?cfg = "config_of [title_spec, JDict ?kv]"
  let ?w = "example_world [(''report.json'', ?cfg)]"
  have a: "load_config ?w ''report.json'' = Inr ?cfg"
    by (simp add: example_defs eval_defs)
  have b: "py_getitem ?cfg ''presentation'' = Inr (JList ([title_spec] @ JDict ?kv # []))"
    by (simp add: config_of_def)
  have loop: "slide_loop ?w 0 [title_spec] \<lparr>slides = [], figure = plt fresh_process\<rparr>
      (log fresh_process @ [INFO (ConfigLoaded ''report.json'')]) =
      (Completed,
       \<lparr>slides = [\<lparr>layout = 0, title_text = Some (JStr ''T''), placeholder1_text = Some (JStr ''C''),
                    paragraphs = [], shapes = []\<rparr>], figure = empty_figure\<rparr>,
       [INFO (ConfigLoaded ''report.json''), INFO (SlideGenerated 1)])"
    by (simp add: example_defs eval_defs)
  have c: "map_of ?kv ''type'' = Some (JStr ''plot'')" by simp
  have d: "fst ` set ?kv \<subseteq> {''type'', ''title'', ''content'', ''configuration''}" by simp
  have e: "check_type ?w (kwarg ?kv ''title'' (JStr '''')) TStr = None"
    by (simp add: example_world_def kwarg_def)
  have f: "check_type ?w (kwarg ?kv ''content'' (JStr '''')) TStr = None"
    by (simp add: example_world_def kwarg_def)
  have g: "check_type ?w (kwarg ?kv ''configuration'' (JDict [])) TDict = None"
    by (simp add: example_world_def kwarg_def)
  have h: "loadtxt ?w (kwarg ?kv ''content'' (JStr '''')) = Inr (Array2 [[0, 1, 2], [0, 1, 4]]) \<and>
      column (Array2 [[0, 1, 2], [0, 1, 4]]) 0 = Inr [0, 1, 2] \<and>
      column (Array2 [[0, 1, 2], [0, 1, 4]]) 1 = Inr [0, 1, 4] \<and>
      kwarg ?kv ''configuration'' (JDict []) = JDict [(''y-label'', JStr ''y'')] \<and>
      map_of [(''y-label'', JStr ''y'')] ''x-label'' = None"
    by (simp add: example_world_def kwarg_def)
  from plot_slide_errors[OF a b loop c d e f g, of "Array2 [[0, 1, 2], [0, 1, 4]]" "[0, 1, 2]" "[0, 1, 4]"
      "[(''y-label'', JStr ''y'')]" "''report.pptx''"] h
  show ?thesis by simp
qed

theorem plot_slide_errors_counterexample:
  "map_of [(''y-label'', JStr ''y'')] ''x-label'' = None \<and>
   generate
     (example_world [(''report.json'', config_of
        [JDict [(''type'', JStr ''plot''), (''content'', JStr ''absent.dat''),
                (''configuration'', JDict [(''y-label'', JStr ''y'')])]])])
     fresh_process ''report.json'' ''report.pptx'' =
     (None, fresh_process\<lparr>log :=
        [INFO (ConfigLoaded ''report.json''),
         ERROR (SlideFileDependency 1 (Text ''No such file or directory''))]\<rparr>) \<and>
   generate
     (example_world [(''report.json'', config_of [plot_spec ''words.dat''])])
     fresh_process ''report.json'' ''report.pptx'' =
     (None, fresh_process\<lparr>log :=
        [INFO (ConfigLoaded ''report.json''),
         ERROR (SlideNotValid 1 (Text ''could not convert string to float''))]\<rparr>) \<and>
   generate
     (example_world [(''report.json'', config_of [plot_spec ''one_column.dat''])])
     fresh_process ''report.json'' ''report.pptx'' =
     (Some (Exn IndexError (Text ''too many indices for array'')),
      fresh_process\<lparr>log := [INFO (ConfigLoaded ''report.json'')]\<rparr>)"
  by (simp add: example_defs eval_defs)

text \<open>
  C7. Marking a function that has no docstring with \<open>command\<close> raises the
  \<open>AttributeError\<close> that names it. Marking it with \<open>default_command\<close> does not look at
  the docstring: the function comes back marked as a command and as the default command.
  Constructing the interface for an object whose class has no docstring raises an
  \<open>AttributeError\<close>.

  The counterexample is the program's own \<open>App.default\<close>: it has no docstring, is marked
  with \<open>default_command\<close>, and the interface of \<open>App\<close> is built with it as the default
  command.
\<close>

theorem command_needs_docstring:
  "(doc f = None \<longrightarrow> command f = Inl (Exn AttributeError (HasNoDocstring (name f)))) \<and>
   (doc f = None \<longrightarrow>
      is_command (default_command f) \<and> is_default_command (default_command f) \<and>
      doc (default_command f) = None) \<and>
   (class_doc self = None \<longrightarrow>
      (\<exists>d. CommandlineInterface_init self = Inl (Exn AttributeError d)))"
  by (simp add: command_def default_command_def CommandlineInterface_init_def)

theorem command_needs_docstring_witness:
  "doc (def ''helper'' None) = None \<and>
   command (def ''helper'' None) = Inl (Exn AttributeError (HasNoDocstring ''helper'')) \<and>
   is_command (default_command (def ''helper'' None)) \<and>
   class_doc \<lparr>class_doc = None, methods = []\<rparr> = None \<and>
   (\<exists>d. CommandlineInterface_init \<lparr>class_doc = None, methods = []\<rparr> = Inl (Exn AttributeError d))"
  using command_needs_docstring[of "def ''helper'' None" "\<lparr>class_doc = None, methods = []\<rparr>"]
  by (simp add: def_def)

theorem command_needs_docstring_counterexample:
  "doc (def ''default'' None) = None \<and>
   default_command (def ''default'' None) =
     \<lparr>name = ''default'', doc = None, is_command = True, is_default_command = True\<rparr> \<and>
   (\<exists>c. App_init = Inr c \<and>
      map_of (cmds c) [] =
        Some \<lparr>name = ''default'', doc = None, is_command = True, is_default_command = True\<rparr>)"
  by (simp add: cli_defs Let_def)




text \<open>
  C9. \<open>PlotSlide.__init__\<close> plots on pyplot's module-global figure and never clears it.
  In a run of \<open>generate\<close> whose slide loop completes, for plot slides \<open>j\<close> and \<open>k\<close> with
  \<open>j\<close> before \<open>k\<close>: the picture on slide \<open>k\<close> is the figure with the lines that were on
  it when \<open>generate\<close> began, then lines of which one is the data of slide \<open>j\<close>, and last
  the data of slide \<open>k\<close> itself. After the run the figure still holds the lines of all
  the slides.
\<close>

theorem plot_slides_share_figure:
  assumes "load_config w config = Inr data"
    and "py_getitem data ''presentation'' = Inr (JList specs)"
    and "slide_loop w 0 specs \<lparr>slides = [], figure = plt p\<rparr> (log p @ [INFO (ConfigLoaded config)]) =
           (Completed, h', lg')"
    and "j < k" and "k < length specs"
    and "specs ! j = JDict kvj" and "map_of kvj ''type'' = Some (JStr ''plot'')"
    and "specs ! k = JDict kvk" and "map_of kvk ''type'' = Some (JStr ''plot'')"
  shows "generate w p config output =
           save_presentation w output (slides h') (p\<lparr>log := lg', plt := figure h'\<rparr>) \<and>
         plt (snd (generate w p config output)) = figure h' \<and>
         lines (figure h') = lines (plt p) @ concat (map (plotted w) specs) \<and>
         (\<exists>img xsj ysj xsk ysk a b.
            shapes (slides h' ! k) = [PictureStream img 1 2 5] \<and>
            lines img = lines (plt p) @ a @ [(xsj, ysj)] @ b @ [(xsk, ysk)] \<and>
            (\<exists>d. loadtxt w (kwarg kvj ''content'' (JStr '''')) = Inr d \<and>
                 column d 0 = Inr xsj \<and> column d 1 = Inr ysj) \<and>
            (\<exists>d. loadtxt w (kwarg kvk ''content'' (JStr '''')) = Inr d \<and>
                 column d 0 = Inr xsk \<and> column d 1 = Inr ysk))"
proof -
  let ?h0 = "\<lparr>slides = [], figure = plt p\<rparr>"
  have gen: "generate w p config output =
      save_presentation w output (slides h') (p\<lparr>log := lg', plt := figure h'\<rparr>)"
    using generate_loop[OF assms(1,2) _ assms(3), of "output"] by simp
  then have after: "plt (snd (generate w p config output)) = figure h'"
    by (simp add: save_presentation_def split: option.splits)
  from slide_loop_figures[OF assms(3)] obtain ss where ss:
    "slides h' = ss" "length ss = length specs"
    "lines (figure h') = lines (plt p) @ concat (map (plotted w) specs)"
    "\<forall>k < length specs. \<forall>kv. specs ! k = JDict kv \<and> map_of kv ''type'' = Some (JStr ''plot'') \<longrightarrow>
        (\<exists>img. shapes (ss ! k) = [PictureStream img 1 2 5] \<and>
           lines img = lines (plt p) @ concat (map (plotted w) (take (Suc k) specs)))"
    by auto
  from ss(4) assms(5,8,9) obtain img where img:
    "shapes (ss ! k) = [PictureStream img 1 2 5]"
    "lines img = lines (plt p) @ concat (map (plotted w) (take (Suc k) specs))"
    by blast
  have valid: "fst (from_dict w ?h0 (specs ! n)) = None" if "n < length specs" for n
    using slide_loop_all_valid[OF assms(3), of "specs ! n" ?h0] that by simp
  have plot: "\<exists>a xs ys. loadtxt w (kwarg kv ''content'' (JStr '''')) = Inr a \<and>
      column a 0 = Inr xs \<and> column a 1 = Inr ys \<and> plotted w (specs ! n) = [(xs, ys)]"
    if n: "n < length specs" and kv: "specs ! n = JDict kv" "map_of kv ''type'' = Some (JStr ''plot'')"
    for n kv
  proof -
    obtain h1 d1 where "from_dict w ?h0 (JDict kv) = (None, h1, d1)"
      using valid[OF n] kv(1) by (cases "from_dict w ?h0 (JDict kv)") auto
    from from_dict_ok_plot[OF this kv(2)] kv(1) show ?thesis by auto
  qed
  from plot[OF _ assms(6,7)] assms(4,5) obtain dj xsj ysj where pj:
    "loadtxt w (kwarg kvj ''content'' (JStr '''')) = Inr dj"
    "column dj 0 = Inr xsj" "column dj 1 = Inr ysj" "plotted w (specs ! j) = [(xsj, ysj)]"
    by auto
  from plot[OF assms(5,8,9)] obtain dk xsk ysk where pk:
    "loadtxt w (kwarg kvk ''content'' (JStr '''')) = Inr dk"
    "column dk 0 = Inr xsk" "column dk 1 = Inr ysk" "plotted w (specs ! k) = [(xsk, ysk)]"
    by auto
  have "take (Suc k) specs = take k specs @ [specs ! k]"
    using assms(5) by (simp add: take_Suc_conv_app_nth)
  moreover have "take k specs = take j specs @ specs ! j # drop (Suc j) (take k specs)"
    using id_take_nth_drop[of j "take k specs"] assms(4,5) by simp
  ultimately have "take (Suc k) specs =
      take j specs @ [specs ! j] @ drop (Suc j) (take k specs) @ [specs ! k]"
    by simp
  then have "lines img = lines (plt p) @ concat (map (plotted w) (take j specs)) @ [(xsj, ysj)] @
      concat (map (plotted w) (drop (Suc j) (take k specs))) @ [(xsk, ysk)]"
    using img(2) pj(4) pk(4) by simp
  with img(1) ss(1) pj(1-3) pk(1-3) have "\<exists>img xsj ysj xsk ysk a b.
            shapes (slides h' ! k) = [PictureStream img 1 2 5] \<and>
            lines img = lines (plt p) @ a @ [(xsj, ysj)] @ b @ [(xsk, ysk)] \<and>
            (\<exists>d. loadtxt w (kwarg kvj ''content'' (JStr '''')) = Inr d \<and>
                 column d 0 = Inr xsj \<and> column d 1 = Inr ysj) \<and>
            (\<exists>d. loadtxt w (kwarg kvk ''content'' (JStr '''')) = Inr d \<and>
                 column d 0 = Inr xsk \<and> column d 1 = Inr ysk)"
    by blast
  with gen after ss(3) show ?thesis by blast
qed

theorem plot_slides_share_figure_witness:
  "fst (slide_loop
     (example_world [(''report.json'', config_of [plot_spec ''sample.dat'', title_spec, plot_spec ''other.dat''])])
     0 [plot_spec ''sample.dat'', title_spec, plot_spec ''other.dat'']
     \<lparr>slides = [], figure = plt fresh_process\<rparr>
     (log fresh_process @ [INFO (ConfigLoaded ''report.json'')])) = Completed \<and>
   (\<exists>img a b.
      shapes (slides (fst (snd (slide_loop
        (example_world [(''report.json'', config_of [plot_spec ''sample.dat'', title_spec, plot_spec ''other.dat''])])
        0 [plot_spec ''sample.dat'', title_spec, plot_spec ''other.dat'']
        \<lparr>slides = [], figure = plt fresh_process\<rparr>
        (log fresh_process @ [INFO (ConfigLoaded ''report.json'')])))) ! 2) =
        [PictureStream img 1 2 5] \<and>
      lines img = a @ [([0, 1, 2], [0, 1, 4])] @ b @ [([0, 1], [5, 3])])"
proof -
  let ?specs = "[plot_spec ''sample.dat'', title_spec, plot_spec ''other.dat'']"
  let ?cfg = "config_of ?specs"
  let ?w = "example_world [(''report.json'', ?cfg)]"
  let ?loop = "slide_loop ?w 0 ?specs \<lparr>slides = [], figure = plt fresh_process\<rparr>
     (log fresh_process @ [INFO (ConfigLoaded ''report.json'')])"
  have a: "load_config ?w ''report.json'' = Inr ?cfg"
    by (simp add: example_defs eval_defs)
  have b: "py_getitem ?cfg ''presentation'' = Inr (JList ?specs)"
    by (simp add: config_of_def)
  have c: "fst ?loop = Completed"
    by (simp add: example_defs eval_defs)
  then have loop: "?loop = (Completed, fst (snd ?loop), snd (snd ?loop))"
    by (metis prod.collapse)
  let ?kvj = "[(''type'', JStr ''plot''), (''title'', JStr ''P''), (''content'', JStr ''sample.dat''),
            (''configuration'', JDict [(''x-label'', JStr ''x''), (''y-label'', JStr ''y'')])]"
  let ?kvk = "[(''type'', JStr ''plot''), (''title'', JStr ''P''), (''content'', JStr ''other.dat''),
            (''configuration'', JDict [(''x-label'', JStr ''x''), (''y-label'', JStr ''y'')])]"
  have j: "?specs ! 0 = JDict ?kvj" "map_of ?kvj ''type'' = Some (JStr ''plot'')"
    by (simp_all add: plot_spec_def)
  have k: "?specs ! 2 = JDict ?kvk" "map_of ?kvk ''type'' = Some (JStr ''plot'')"
    by (simp_all add: plot_spec_def)
  have lt: "(0::nat) < 2" "2 < length ?specs"
    by simp_all
  have ld: "loadtxt ?w (kwarg ?kvj ''content'' (JStr '''')) = Inr (Array2 [[0, 1, 2], [0, 1, 4]])"
    "loadtxt ?w (kwarg ?kvk ''content'' (JStr '''')) = Inr (Array2 [[0, 1], [5, 3]])"
    by (simp_all add: example_world_def kwarg_def)
  note th = plot_slides_share_figure[OF a b loop lt j k, of "''report.pptx''"]
  from th[THEN conjunct2, THEN conjunct2, THEN conjunct2]
  obtain img xsj ysj xsk ysk a b where
    "shapes (slides (fst (snd ?loop)) ! 2) = [PictureStream img 1 2 5]"
    "lines img = lines (plt fresh_process) @ a @ [(xsj, ysj)] @ b @ [(xsk, ysk)]"
    "\<exists>d. loadtxt ?w (kwarg ?kvj ''content'' (JStr [])) = Inr d \<and>
         column d 0 = Inr xsj \<and> column d 1 = Inr ysj"
    "\<exists>d. loadtxt ?w (kwarg ?kvk ''content'' (JStr [])) = Inr d \<and>
         column d 0 = Inr xsk \<and> column d 1 = Inr ysk"
    by blast
  moreover from this(3,4) have "xsj = [0, 1, 2]" "ysj = [0, 1, 4]" "xsk = [0, 1]" "ysk = [5, 3]"
    unfolding ld by simp_all
  moreover have "lines (plt fresh_process) = []"
    by (simp add: fresh_process_def empty_figure_def)
  ultimately have "\<exists>img a b. shapes (slides (fst (snd ?loop)) ! 2) = [PictureStream img 1 2 5] \<and>
      lines img = a @ [([0, 1, 2], [0, 1, 4])] @ b @ [([0, 1], [5, 3])]"
    by auto
  with c show ?thesis by simp
qed

text \<open>
  C10. \<open>Slide.from_dict\<close> changes the dictionary it is given. When the dictionary has the
  key \<open>type\<close>, the dictionary after the call is the one without that key, whatever the
  constructor then does; so a second call on the same dictionary raises \<open>KeyError\<close> for
  \<open>type\<close> and adds nothing to the document. A dictionary without the key raises the same
  \<open>KeyError\<close>, and the document and the dictionary stay as they were.
\<close>

theorem from_dict_pops_type:
  "(map_of kv ''type'' = Some t \<longrightarrow>
      snd (snd (from_dict w h (JDict kv))) = JDict (filter (\<lambda>(k, v). k \<noteq> ''type'') kv) \<and>
      from_dict w h' (snd (snd (from_dict w h (JDict kv)))) =
        (Some (Exn KeyError (MissingKey ''type'')), h', snd (snd (from_dict w h (JDict kv))))) \<and>
   (map_of kv ''type'' = None \<longrightarrow>
      from_dict w h (JDict kv) = (Some (Exn KeyError (MissingKey ''type'')), h, JDict kv))"
proof -
  have none: "from_dict w g (JDict xs) = (Some (Exn KeyError (MissingKey ''type'')), g, JDict xs)"
    if "map_of xs ''type'' = None" for g xs
    using that by (simp add: from_dict_def)
  have popped: "snd (snd (from_dict w h (JDict kv))) = JDict (filter (\<lambda>(k, v). k \<noteq> ''type'') kv)"
    if "map_of kv ''type'' = Some t"
    using that by (simp add: from_dict_def Let_def split_beta)
  show ?thesis
    using none[of kv h] none[OF map_of_filter_neq, of h'] popped by simp
qed

theorem from_dict_pops_type_witness:
  "map_of [(''type'', JStr ''title''), (''title'', JStr ''T'')] ''type'' = Some (JStr ''title'') \<and>
   snd (snd (from_dict (example_world []) \<lparr>slides = [], figure = empty_figure\<rparr>
               (JDict [(''type'', JStr ''title''), (''title'', JStr ''T'')]))) =
     JDict [(''title'', JStr ''T'')] \<and>
   from_dict (example_world []) \<lparr>slides = [], figure = empty_figure\<rparr> (JDict [(''title'', JStr ''T'')]) =
     (Some (Exn KeyError (MissingKey ''type'')), \<lparr>slides = [], figure = empty_figure\<rparr>,
      JDict [(''title'', JStr ''T'')])"
  using from_dict_pops_type[of "[(''type'', JStr ''title''), (''title'', JStr ''T'')]" "JStr ''title''"
      "example_world []" "\<lparr>slides = [], figure = empty_figure\<rparr>" "\<lparr>slides = [], figure = empty_figure\<rparr>"]
  by auto

end
